theory Spec2Isabelle
  imports Complex_Main
begin

section \<open>Data model\<close>

text \<open>
  Strings are Go strings: sequences of bytes (\<open>char list\<close>), and \<open>length\<close> is Go's \<open>len\<close>.
  An \<open>error\<close> value is represented by the text its \<open>Error()\<close> method returns, a nil error by
  \<open>None\<close>.
\<close>

text \<open>A decoded JSON value, the dynamic type \<open>any\<close> that \<open>encoding/json\<close> produces
  (nil, bool, float64, string, []any, map[string]any). A JSON number decodes to a finite
  float64, which is a rational.\<close>

datatype json =
    JNull
  | JBool bool
  | JNumber rat
  | JString string
  | JArray "json list"
  | JObject "(string \<times> json) list"

text \<open>\<open>openai.ChatCompletionMessageToolCall\<close>: id, function name, raw argument text.\<close>

record tool_call =
  tc_id :: string
  tc_name :: string
  tc_arguments :: string

text \<open>\<open>openai.ChatCompletionMessageParamUnion\<close>, one constructor per role, as built by
  \<open>openai.SystemMessage\<close>, \<open>openai.UserMessage\<close>, \<open>Message.ToParam()\<close> and
  \<open>openai.ToolMessage(content, toolCallID)\<close>.\<close>

datatype message =
    SystemMessage string
  | UserMessage string
  | AssistantMessage string "tool_call list"
  | ToolMessage string string

text \<open>The union's accessors \<open>OfSystem\<close>, \<open>OfAssistant\<close> and \<open>OfTool\<close>: the content of a
  message of that role, \<open>None\<close> (nil) for a message of another role.\<close>

fun OfSystem :: "message \<Rightarrow> string option" where
  "OfSystem (SystemMessage c) = Some c"
| "OfSystem _ = None"

fun OfAssistant :: "message \<Rightarrow> string option" where
  "OfAssistant (AssistantMessage c tcs) = Some c"
| "OfAssistant _ = None"

fun OfTool :: "message \<Rightarrow> string option" where
  "OfTool (ToolMessage c i) = Some c"
| "OfTool _ = None"

text \<open>\<open>openai.ChatCompletionChoice\<close>: the finish reason and the assistant message.\<close>

record choice =
  finish_reason :: string
  msg_content :: string
  msg_tool_calls :: "tool_call list"

text \<open>\<open>openai.ChatCompletionToolParam\<close>: function name, description and the names of the
  required parameters of its schema.\<close>

record tool_def =
  def_name :: string
  def_description :: string
  def_required :: "string list"

text \<open>\<open>openai.ChatCompletionNewParams\<close>.\<close>

record params =
  p_model :: string
  p_messages :: "message list"
  p_tools :: "tool_def list"

text \<open>What a Go call does: it returns a value or panics (with the panic's text).\<close>

datatype 'a go_result = Returns 'a | Panics string

text \<open>One pass through the body of a \<open>for { ... }\<close> loop either goes round again with the
  new loop variables or leaves the function.\<close>

datatype ('a, 'r) iter = Again 'a | Done 'r

subsection \<open>The process and its surroundings\<close>

text \<open>
  The state threaded through every operation: the requests sent to the model so far, the
  subprocesses started so far (command text and working directory), both in order, what
  was written to standard output and standard error, and the state \<open>ext\<close> of everything
  outside the program (the model endpoint, the file system, the operating system).
\<close>

record 'x sys =
  requests :: "params list"
  spawned :: "(string \<times> string) list"
  stdout :: "string list"
  stderr :: "string list"
  ext :: 'x

text \<open>
  The collaborators the code calls but the repository does not contain:
  \<^item> \<open>unmarshal\<close>: \<open>json.Unmarshal([]byte(text), &args)\<close> with \<open>args :: map[string]any\<close>;
    the error text or the decoded object;
  \<^item> \<open>complete\<close>: the model client (\<open>LLMClient.Complete\<close>, \<open>client.Chat.Completions.New\<close>);
    the error text or the list \<open>Choices\<close> of the response;
  \<^item> \<open>bash\<close>: what \<open>exec.Command("bash", "-c", command)\<close> with \<open>cmd.Dir = dir\<close> does when run by
    \<open>CombinedOutput()\<close>: the combined output and the error, and the new outside state;
  \<^item> \<open>getwd\<close>: \<open>os.Getwd()\<close> (its error is discarded by the code).
\<close>

record 'x env =
  unmarshal :: "string \<Rightarrow> string + (string \<rightharpoonup> json)"
  complete :: "'x \<Rightarrow> params \<Rightarrow> (string + choice list) \<times> 'x"
  bash :: "'x \<Rightarrow> string \<Rightarrow> string \<Rightarrow> (string \<times> string option) \<times> 'x"
  getwd :: "'x \<Rightarrow> string"

text \<open>\<open>cmd.CombinedOutput()\<close>: starts the subprocess and waits for it.\<close>

definition CombinedOutput ::
  "'x env \<Rightarrow> string \<Rightarrow> string \<Rightarrow> 'x sys \<Rightarrow> (string \<times> string option) \<times> 'x sys" where
  "CombinedOutput E command dir s =
     (case bash E (ext s) command dir of
        (r, x') \<Rightarrow> (r, s\<lparr>spawned := spawned s @ [(command, dir)], ext := x'\<rparr>))"

text \<open>The model call.\<close>

definition Complete :: "'x env \<Rightarrow> params \<Rightarrow> 'x sys \<Rightarrow> (string + choice list) \<times> 'x sys" where
  "Complete E p s =
     (case complete E (ext s) p of
        (r, x') \<Rightarrow> (r, s\<lparr>requests := requests s @ [p], ext := x'\<rparr>))"

text \<open>\<open>fmt.Print*\<close> to standard output, \<open>fmt.Fprintln(os.Stderr, ...)\<close>.\<close>

definition print_out :: "string \<Rightarrow> 'x sys \<Rightarrow> 'x sys" where
  "print_out t s = s\<lparr>stdout := stdout s @ [t]\<rparr>"

definition print_err :: "string \<Rightarrow> 'x sys \<Rightarrow> 'x sys" where
  "print_err t s = s\<lparr>stderr := stderr s @ [t]\<rparr>"

section \<open>Go's \<open>strings\<close> package\<close>

text \<open>\<open>strings.HasPrefix\<close> and \<open>strings.Contains\<close>, on bytes.\<close>

fun HasPrefix :: "string \<Rightarrow> string \<Rightarrow> bool" where
  "HasPrefix s [] = True"
| "HasPrefix [] (p # ps) = False"
| "HasPrefix (c # cs) (p # ps) = (c = p \<and> HasPrefix cs ps)"

fun Contains :: "string \<Rightarrow> string \<Rightarrow> bool" where
  "Contains [] substr = (substr = [])"
| "Contains (c # cs) substr = (HasPrefix (c # cs) substr \<or> Contains cs substr)"

text \<open>
  \<open>strings.TrimSpace\<close> removes all leading and trailing white space as Unicode defines it
  (\<open>unicode.IsSpace\<close>). \<open>spaceRunes\<close> lists the UTF-8 encodings of these code points:
  U+0009 to U+000D, U+0020, U+0085, U+00A0, U+1680, U+2000 to U+200A, U+2028, U+2029,
  U+202F, U+205F, U+3000. A byte sequence that is not valid UTF-8 decodes to U+FFFD, which
  is not white space.
\<close>

definition spaceRunes :: "string list" where
  "spaceRunes =
     [[CHR 0x09], [CHR 0x0A], [CHR 0x0B], [CHR 0x0C], [CHR 0x0D], [CHR 0x20],
      [CHR 0xC2, CHR 0x85], [CHR 0xC2, CHR 0xA0],
      [CHR 0xE1, CHR 0x9A, CHR 0x80],
      [CHR 0xE2, CHR 0x80, CHR 0x80], [CHR 0xE2, CHR 0x80, CHR 0x81],
      [CHR 0xE2, CHR 0x80, CHR 0x82], [CHR 0xE2, CHR 0x80, CHR 0x83],
      [CHR 0xE2, CHR 0x80, CHR 0x84], [CHR 0xE2, CHR 0x80, CHR 0x85],
      [CHR 0xE2, CHR 0x80, CHR 0x86], [CHR 0xE2, CHR 0x80, CHR 0x87],
      [CHR 0xE2, CHR 0x80, CHR 0x88], [CHR 0xE2, CHR 0x80, CHR 0x89],
      [CHR 0xE2, CHR 0x80, CHR 0x8A],
      [CHR 0xE2, CHR 0x80, CHR 0xA8], [CHR 0xE2, CHR 0x80, CHR 0xA9],
      [CHR 0xE2, CHR 0x80, CHR 0xAF],
      [CHR 0xE2, CHR 0x81, CHR 0x9F],
      [CHR 0xE3, CHR 0x80, CHR 0x80]]"

text \<open>The number of bytes of the white-space rune \<open>s\<close> starts with, 0 when it starts with
  none; \<open>trimFront\<close> removes such runes from the front for as long as there is one.\<close>

definition leadingSpace :: "string list \<Rightarrow> string \<Rightarrow> nat" where
  "leadingSpace runes s = (case find (HasPrefix s) runes of None \<Rightarrow> 0 | Some r \<Rightarrow> length r)"

function trimFront :: "string list \<Rightarrow> string \<Rightarrow> string" where
  "trimFront runes s =
     (if leadingSpace runes s = 0 \<or> s = [] then s
      else trimFront runes (drop (leadingSpace runes s) s))"
  by pat_completeness auto
termination
  by (relation "measure (\<lambda>(runes, s). length s)") auto

declare trimFront.simps [simp del]

definition TrimLeftSpace :: "string \<Rightarrow> string" where
  "TrimLeftSpace s = trimFront spaceRunes s"

definition TrimRightSpace :: "string \<Rightarrow> string" where
  "TrimRightSpace s = rev (trimFront (map rev spaceRunes) (rev s))"

definition TrimSpace :: "string \<Rightarrow> string" where
  "TrimSpace s = TrimRightSpace (TrimLeftSpace s)"

section \<open>The interactive variant: \<open>agents/s01_agent_loop/main.go\<close>\<close>

definition colorYellow :: string where
  "colorYellow = CHR 0x1B # ''[33m''"

definition colorReset :: string where
  "colorReset = CHR 0x1B # ''[0m''"

definition dangerousPatterns :: "string list" where
  "dangerousPatterns = [''rm -rf /'', ''sudo'', ''shutdown'', ''reboot'', ''> /dev/'']"

text \<open>\<open>runBashIn(command, dir)\<close>: the blocklist, the subprocess, trimming, the two
  sentinels and the cap.\<close>

definition runBashIn :: "'x env \<Rightarrow> string \<Rightarrow> string \<Rightarrow> 'x sys \<Rightarrow> string \<times> 'x sys" where
  "runBashIn E command dir s =
     (if list_ex (\<lambda>pattern. Contains command pattern) dangerousPatterns
      then (''Error: Dangerous command blocked'', s)
      else
        let cmdDir = (if dir \<noteq> '''' then dir else getwd E (ext s));
            ((out, err), s1) = CombinedOutput E command cmdDir s;
            result = TrimSpace out;
            result = (case err of
                        Some e \<Rightarrow> if result = '''' then ''Error: '' @ e else result
                      | None \<Rightarrow> result);
            result = (if result = '''' then ''(no output)'' else result);
            result = (if length result > 50000 then take 50000 result else result)
        in (result, s1))"

definition runBash :: "'x env \<Rightarrow> string \<Rightarrow> 'x sys \<Rightarrow> string \<times> 'x sys" where
  "runBash E command s = runBashIn E command '''' s"

definition bashToolDef :: tool_def where
  "bashToolDef =
     \<lparr>def_name = ''bash'', def_description = ''Run a shell command.'',
      def_required = [''command'']\<rparr>"

text \<open>\<open>choice.Message.ToParam()\<close>: the response message as an assistant history entry.\<close>

definition ToParam :: "choice \<Rightarrow> message" where
  "ToParam c = AssistantMessage (msg_content c) (msg_tool_calls c)"

text \<open>The body of \<open>for _, tc := range choice.Message.ToolCalls\<close> in \<open>agentLoop\<close>.\<close>

definition agentLoop_call ::
  "'x env \<Rightarrow> string \<Rightarrow> tool_call \<Rightarrow> message list \<Rightarrow> 'x sys \<Rightarrow> message list \<times> 'x sys" where
  "agentLoop_call E cwd tc messages s =
     (case unmarshal E (tc_arguments tc) of
        Inl err \<Rightarrow> (messages @ [ToolMessage (''error: '' @ err) (tc_id tc)], s)
      | Inr args \<Rightarrow>
          let command = (case args ''command'' of Some (JString c) \<Rightarrow> c | _ \<Rightarrow> '''');
              s1 = print_out (colorYellow @ ''$ '' @ command @ colorReset @ [CHR 0x0A]) s;
              (output, s2) = runBashIn E command cwd s1;
              preview = (if length output > 200 then take 200 output else output);
              s3 = print_out (preview @ [CHR 0x0A]) s2
          in (messages @ [ToolMessage output (tc_id tc)], s3))"

fun agentLoop_calls ::
  "'x env \<Rightarrow> string \<Rightarrow> tool_call list \<Rightarrow> message list \<Rightarrow> 'x sys \<Rightarrow> message list \<times> 'x sys" where
  "agentLoop_calls E cwd [] messages s = (messages, s)"
| "agentLoop_calls E cwd (tc # tcs) messages s =
     (case agentLoop_call E cwd tc messages s of
        (messages', s') \<Rightarrow> agentLoop_calls E cwd tcs messages' s')"

text \<open>One pass through the body of the outer \<open>for\<close> of \<open>agentLoop\<close>. \<open>resp.Choices[0]\<close>
  panics on a response without choices.\<close>

definition agentLoop_iter ::
  "'x env \<Rightarrow> string \<Rightarrow> string \<Rightarrow> message list \<Rightarrow> 'x sys \<Rightarrow>
     (message list, message list go_result) iter \<times> 'x sys" where
  "agentLoop_iter E system cwd messages s =
     (let fullMessages = [SystemMessage system] @ messages in
      case Complete E \<lparr>p_model = '''', p_messages = fullMessages, p_tools = [bashToolDef]\<rparr> s of
        (Inl err, s1) \<Rightarrow>
          (Done (Returns messages), print_err (''API error: '' @ err @ [CHR 0x0A]) s1)
      | (Inr choices, s1) \<Rightarrow>
          (case choices of
             [] \<Rightarrow> (Done (Panics ''runtime error: index out of range [0] with length 0''), s1)
           | choice # _ \<Rightarrow>
               let messages1 = messages @ [ToParam choice] in
               if finish_reason choice \<noteq> ''tool_calls'' then (Done (Returns messages1), s1)
               else (case agentLoop_calls E cwd (msg_tool_calls choice) messages1 s1 of
                       (messages2, s2) \<Rightarrow> (Again messages2, s2))))"

text \<open>The outer \<open>for { ... }\<close>: it has no bound, so the loop is a partial function, and
  \<open>None\<close> is the run that never returns.\<close>

partial_function (option) agentLoop_for ::
  "'x env \<Rightarrow> string \<Rightarrow> string \<Rightarrow> message list \<Rightarrow> 'x sys \<Rightarrow>
     (message list go_result \<times> 'x sys) option" where
  "agentLoop_for E system cwd messages s =
     (case agentLoop_iter E system cwd messages s of
        (Done r, s') \<Rightarrow> Some (r, s')
      | (Again messages', s') \<Rightarrow> agentLoop_for E system cwd messages' s')"

text \<open>\<open>agentLoop(llm, system, messages, workDir...)\<close>.\<close>

definition agentLoop ::
  "'x env \<Rightarrow> string \<Rightarrow> message list \<Rightarrow> string list \<Rightarrow> 'x sys \<Rightarrow>
     (message list go_result \<times> 'x sys) option" where
  "agentLoop E system messages workDir s =
     (let cwd = (case workDir of d # _ \<Rightarrow> if d \<noteq> '''' then d else '''' | [] \<Rightarrow> '''')
      in agentLoop_for E system cwd messages s)"

section \<open>The registry-based variant: \<open>pkg/tools\<close>, \<open>pkg/loop\<close> and its \<open>main\<close> package\<close>

text \<open>\<open>tools.Handler\<close>: from the decoded arguments to the result text and the error; a
  handler may start processes, so it passes the state on.\<close>

type_synonym 'x Handler = "(string \<rightharpoonup> json) \<Rightarrow> 'x sys \<Rightarrow> (string \<times> string option) \<times> 'x sys"

text \<open>\<open>tools.Registry\<close>, with its map allocated (as \<open>New\<close> returns it).\<close>

record 'x Registry =
  definitions :: "tool_def list"
  handlers :: "string \<rightharpoonup> 'x Handler"

definition New :: "'x Registry" where
  "New = \<lparr>definitions = [], handlers = Map.empty\<rparr>"

definition Register :: "'x Registry \<Rightarrow> tool_def \<Rightarrow> 'x Handler \<Rightarrow> 'x Registry" where
  "Register r d handler =
     r\<lparr>definitions := definitions r @ [d], handlers := (handlers r)(def_name d \<mapsto> handler)\<rparr>"

definition Definitions :: "'x Registry \<Rightarrow> tool_def list" where
  "Definitions r = definitions r"

definition Dispatch ::
  "'x Registry \<Rightarrow> string \<Rightarrow> (string \<rightharpoonup> json) \<Rightarrow> 'x sys \<Rightarrow> (string \<times> string option) \<times> 'x sys" where
  "Dispatch r name args s =
     (case handlers r name of
        None \<Rightarrow> (('''', Some (''unknown tool: '' @ name)), s)
      | Some handler \<Rightarrow> handler args s)"

text \<open>\<open>bashHandler\<close> of the registry-based \<open>main\<close> package: no blocklist, no trimming, a
  cap of 4000 bytes followed by a marker. The command runs in the process's own directory
  (\<open>cmd.Dir\<close> is left empty).\<close>

definition bashHandler :: "'x env \<Rightarrow> 'x Handler" where
  "bashHandler E args s =
     (case args ''command'' of
        Some (JString command) \<Rightarrow>
          (case CombinedOutput E command '''' s of
             ((out, err), s1) \<Rightarrow>
               (case err of
                  Some e \<Rightarrow> ((''exit error: '' @ e @ [CHR 0x0A] @ out, None), s1)
                | None \<Rightarrow>
                    let result = out;
                        result = (if length result > 4000
                                  then take 4000 result @ [CHR 0x0A] @ ''...(truncated)''
                                  else result)
                    in ((result, None), s1)))
      | _ \<Rightarrow> (('''', Some ''command must be a string''), s))"

definition bashToolDef2 :: tool_def where
  "bashToolDef2 =
     \<lparr>def_name = ''bash'', def_description = ''Execute a bash command and return its output.'',
      def_required = [''command'']\<rparr>"

text \<open>The \<open>for _, tc := range choice.Message.ToolCalls\<close> of \<open>loop.Run\<close>: a parse failure
  leaves the function with the history so far and an error (\<open>Inl\<close>).\<close>

fun Run_calls ::
  "'x env \<Rightarrow> 'x Registry \<Rightarrow> tool_call list \<Rightarrow> message list \<Rightarrow> 'x sys \<Rightarrow>
     ((message list \<times> string) + message list) \<times> 'x sys" where
  "Run_calls E registry [] messages s = (Inr messages, s)"
| "Run_calls E registry (tc # tcs) messages s =
     (case unmarshal E (tc_arguments tc) of
        Inl err \<Rightarrow>
          (Inl (messages, ''failed to parse tool args for '' @ tc_name tc @ '': '' @ err), s)
      | Inr args \<Rightarrow>
          (case Dispatch registry (tc_name tc) args s of
             ((output, err), s1) \<Rightarrow>
               let output = (case err of Some e \<Rightarrow> ''error: '' @ e | None \<Rightarrow> output)
               in Run_calls E registry tcs (messages @ [ToolMessage output (tc_id tc)]) s1))"

text \<open>One pass through the body of the outer \<open>for\<close> of \<open>loop.Run\<close>; the function returns
  the history together with an error.\<close>

definition Run_iter ::
  "'x env \<Rightarrow> string \<Rightarrow> message list \<Rightarrow> 'x Registry \<Rightarrow> 'x sys \<Rightarrow>
     (message list, (message list \<times> string option) go_result) iter \<times> 'x sys" where
  "Run_iter E model messages registry s =
     (case Complete E
             \<lparr>p_model = model, p_messages = messages, p_tools = Definitions registry\<rparr> s of
        (Inl err, s1) \<Rightarrow> (Done (Returns (messages, Some (''API call failed: '' @ err))), s1)
      | (Inr choices, s1) \<Rightarrow>
          (case choices of
             [] \<Rightarrow> (Done (Panics ''runtime error: index out of range [0] with length 0''), s1)
           | choice # _ \<Rightarrow>
               let messages1 = messages @ [ToParam choice] in
               if finish_reason choice \<noteq> ''tool_calls''
               then (Done (Returns (messages1, None)), s1)
               else (case Run_calls E registry (msg_tool_calls choice) messages1 s1 of
                       (Inl (messages2, err), s2) \<Rightarrow>
                         (Done (Returns (messages2, Some err)), s2)
                     | (Inr messages2, s2) \<Rightarrow> (Again messages2, s2))))"

partial_function (option) Run ::
  "'x env \<Rightarrow> string \<Rightarrow> message list \<Rightarrow> 'x Registry \<Rightarrow> 'x sys \<Rightarrow>
     ((message list \<times> string option) go_result \<times> 'x sys) option" where
  "Run E model messages registry s =
     (case Run_iter E model messages registry s of
        (Done r, s') \<Rightarrow> Some (r, s')
      | (Again messages', s') \<Rightarrow> Run E model messages' registry s')"

section \<open>Test doubles\<close>

text \<open>
  The doubles of \<open>main_test.go\<close>, and stand-ins for the JSON decoder and the shell that
  agree with the real ones on the listed inputs. They serve to run the loops on concrete
  inputs; the outside state is the call counter of \<open>mockLLMClient\<close>.
\<close>

text \<open>\<open>%d\<close> of a non-negative integer.\<close>

function decimal :: "nat \<Rightarrow> string" where
  "decimal n =
     (if n < 10 then [''0123456789'' ! n]
      else decimal (n div 10) @ [''0123456789'' ! (n mod 10)])"
  by pat_completeness auto
termination
  by (relation "measure (\<lambda>n. n)") auto

declare decimal.simps [simp del]

text \<open>\<open>mockLLMClient.Complete\<close>: the prepared responses, one per call.\<close>

definition mockLLMClient :: "choice list list \<Rightarrow> nat \<Rightarrow> params \<Rightarrow> (string + choice list) \<times> nat" where
  "mockLLMClient responses calls p =
     (if calls \<ge> length responses
      then (Inl (''mockLLMClient: no more responses (call #'' @ decimal calls @ '')''), calls)
      else (Inr (responses ! calls), calls + 1))"

text \<open>\<open>errorLLMClient.Complete\<close>.\<close>

definition errorLLMClient :: "nat \<Rightarrow> params \<Rightarrow> (string + choice list) \<times> nat" where
  "errorLLMClient calls p = (Inl ''simulated API error'', calls)"

text \<open>\<open>makeTextResponse\<close>, and \<open>makeToolCallResponse\<close> with the argument text given as it
  is sent.\<close>

definition makeTextResponse :: "string \<Rightarrow> choice list" where
  "makeTextResponse t = [\<lparr>finish_reason = ''stop'', msg_content = t, msg_tool_calls = []\<rparr>]"

definition makeToolCallResponse :: "string \<Rightarrow> string \<Rightarrow> choice list" where
  "makeToolCallResponse toolCallID arguments =
     [\<lparr>finish_reason = ''tool_calls'', msg_content = '''',
       msg_tool_calls = [\<lparr>tc_id = toolCallID, tc_name = ''bash'', tc_arguments = arguments\<rparr>]\<rparr>]"

text \<open>What \<open>json.Unmarshal\<close> into a \<open>map[string]any\<close> gives on a few argument texts: objects
  decode, text that is not JSON gives a syntax error, and JSON that is not an object gives
  a type error. On any other text \<open>sampleUnmarshal\<close> answers with an error; it stands for
  the decoder on the listed texts only.\<close>

definition sampleArguments :: "(string \<times> (string + (string \<rightharpoonup> json))) list" where
  \<open>sampleArguments =
     [(''{"command":"echo hello"}'', Inr [''command'' \<mapsto> JString ''echo hello'']),
      (''{"command":"sudo ls"}'', Inr [''command'' \<mapsto> JString ''sudo ls'']),
      (''{"command":"false"}'', Inr [''command'' \<mapsto> JString ''false'']),
      (''{"command":42}'', Inr [''command'' \<mapsto> JNumber 42]),
      (''{}'', Inr Map.empty),
      (''[]'',
       Inl ''json: cannot unmarshal array into Go value of type map[string]interface {}''),
      (''{invalid json'',
       Inl ''invalid character 'i' looking for beginning of object key string'')]\<close>

definition sampleUnmarshal :: "string \<Rightarrow> string + (string \<rightharpoonup> json)" where
  "sampleUnmarshal t =
     (case map_of sampleArguments t of Some r \<Rightarrow> r | None \<Rightarrow> Inl ''unexpected end of JSON input'')"

text \<open>What \<open>bash -c\<close> prints and how it exits on a few commands (combined output, error of
  \<open>CombinedOutput\<close>); the last three print 4001 and 50001 times \<open>x\<close> and 50001 spaces.
  \<open>sampleBash\<close> stands for the shell on the listed commands only; any other command is
  answered as an unknown program would be. It does not change the outside state.\<close>

definition sampleCommands :: "(string \<times> (string \<times> string option)) list" where
  "sampleCommands =
     [(''echo hello'', (''hello'' @ [CHR 0x0A], None)),
      (''true'', ('''', None)),
      ('''', ('''', None)),
      (''false'', ('''', Some ''exit status 1'')),
      (''echo boom; false'', (''boom'' @ [CHR 0x0A], Some ''exit status 1'')),
      (''sudo ls'', (''main.go'' @ [CHR 0x0A], None)),
      (''printf %04001d 0 | tr 0 x'', (replicate 4001 (CHR ''x''), None)),
      (''printf %050001d 0 | tr 0 x'', (replicate 50001 (CHR ''x''), None)),
      (''printf %50001s'', (replicate 50001 (CHR '' ''), None))]"

definition sampleBash :: "nat \<Rightarrow> string \<Rightarrow> string \<Rightarrow> (string \<times> string option) \<times> nat" where
  "sampleBash x command dir =
     (case map_of sampleCommands command of
        Some r \<Rightarrow> (r, x)
      | None \<Rightarrow> ((''bash: line 1: '' @ command @ '': command not found'' @ [CHR 0x0A],
                   Some ''exit status 127''), x))"

definition sampleEnv :: "(nat \<Rightarrow> params \<Rightarrow> (string + choice list) \<times> nat) \<Rightarrow> nat env" where
  "sampleEnv llm =
     \<lparr>unmarshal = sampleUnmarshal, complete = llm, bash = sampleBash, getwd = (\<lambda>x. ''/work'')\<rparr>"

definition sys0 :: "nat sys" where
  "sys0 = \<lparr>requests = [], spawned = [], stdout = [], stderr = [], ext = 0\<rparr>"

text \<open>The scenarios of \<open>main_test.go\<close>: a client that always fails; one turn that asks for
  \<open>echo hello\<close> and a final text; one turn whose arguments are not JSON and a final text; one
  turn with arguments that lack the command and a final text.\<close>

definition errorEnv :: "nat env" where
  "errorEnv = sampleEnv errorLLMClient"

definition echoHelloEnv :: "nat env" where
  \<open>echoHelloEnv =
     sampleEnv (mockLLMClient [makeToolCallResponse ''call-1'' ''{"command":"echo hello"}'',
                               makeTextResponse ''The output is: hello''])\<close>

definition invalidJSONEnv :: "nat env" where
  "invalidJSONEnv =
     sampleEnv (mockLLMClient [makeToolCallResponse ''bad-call'' ''{invalid json'',
                               makeTextResponse ''Handled error.''])"

definition noCommandEnv :: "nat env" where
  "noCommandEnv =
     sampleEnv (mockLLMClient [makeToolCallResponse ''call-0'' ''{}'',
                               makeTextResponse ''Nothing to run.''])"

text \<open>The registry of the registry-based \<open>main\<close>: \<open>bash\<close> alone.\<close>

definition mainRegistry :: "nat env \<Rightarrow> nat Registry" where
  "mainRegistry E = Register New bashToolDef2 (bashHandler E)"

text \<open>One turn that asks for \<open>echo hello\<close>, after which the client has nothing left and
  fails.\<close>

definition exhaustedEnv :: "nat env" where
  \<open>exhaustedEnv =
     sampleEnv (mockLLMClient [makeToolCallResponse ''call-1'' ''{"command":"echo hello"}''])\<close>

section \<open>Strings\<close>

lemma HasPrefix_iff: "HasPrefix s p \<longleftrightarrow> (\<exists>v. s = p @ v)"
  by (induction s p rule: HasPrefix.induct) auto

text \<open>\<open>Contains\<close> is the substring relation.\<close>

lemma Contains_iff: "Contains s sub \<longleftrightarrow> (\<exists>u v. s = u @ sub @ v)"
proof (induction s)
  case Nil
  show ?case by auto
next
  case (Cons c cs)
  show ?case
  proof
    assume "Contains (c # cs) sub"
    then consider "HasPrefix (c # cs) sub" | "Contains cs sub" by auto
    then show "\<exists>u v. c # cs = u @ sub @ v"
    proof cases
      case 1
      then obtain v where "c # cs = sub @ v" by (auto simp: HasPrefix_iff)
      then have "c # cs = [] @ sub @ v" by simp
      then show ?thesis by blast
    next
      case 2
      then obtain u v where "cs = u @ sub @ v" using Cons.IH by auto
      then have "c # cs = (c # u) @ sub @ v" by simp
      then show ?thesis by blast
    qed
  next
    assume "\<exists>u v. c # cs = u @ sub @ v"
    then obtain u v where uv: "c # cs = u @ sub @ v" by auto
    show "Contains (c # cs) sub"
    proof (cases u)
      case Nil
      then have "HasPrefix (c # cs) sub" using uv by (auto simp: HasPrefix_iff)
      then show ?thesis by simp
    next
      case (Cons a u')
      then have "cs = u' @ sub @ v" using uv by simp
      then have "Contains cs sub" using Cons.IH by blast
      then show ?thesis by simp
    qed
  qed
qed

lemma trimFront_stop: "leadingSpace runes s = 0 \<Longrightarrow> trimFront runes s = s"
  by (simp add: trimFront.simps)

lemma trimFront_step:
  "leadingSpace runes s = Suc n \<Longrightarrow> trimFront runes s = trimFront runes (drop (Suc n) s)"
  by (subst trimFront.simps) (auto simp: trimFront.simps[of runes "[]"])

lemma trimFront_Nil: "trimFront runes [] = []"
  by (simp add: trimFront.simps)

lemma trimFront_blanks: "trimFront spaceRunes (replicate n (CHR '' '')) = []"
proof (induction n)
  case 0
  show ?case by (simp add: trimFront_Nil)
next
  case (Suc n)
  have "leadingSpace spaceRunes (CHR '' '' # replicate n (CHR '' '')) = Suc 0"
    by (simp add: leadingSpace_def spaceRunes_def)
  then have "trimFront spaceRunes (CHR '' '' # replicate n (CHR '' ''))
           = trimFront spaceRunes (drop (Suc 0) (CHR '' '' # replicate n (CHR '' '')))"
    by (rule trimFront_step)
  then show ?case using Suc.IH by simp
qed

lemma TrimSpace_blanks: "TrimSpace (replicate n (CHR '' '')) = []"
  by (simp add: TrimSpace_def TrimLeftSpace_def TrimRightSpace_def trimFront_blanks
      trimFront_Nil)

lemma trimFront_x: "trimFront spaceRunes (replicate n (CHR ''x'')) = replicate n (CHR ''x'')"
proof (cases n)
  case 0
  then show ?thesis by (simp add: trimFront_Nil)
next
  case (Suc k)
  have "leadingSpace spaceRunes (CHR ''x'' # replicate k (CHR ''x'')) = 0"
    by (simp add: leadingSpace_def spaceRunes_def)
  then show ?thesis using Suc by (simp add: trimFront_stop)
qed

lemma trimFront_rev_x:
  "trimFront (map rev spaceRunes) (replicate n (CHR ''x'')) = replicate n (CHR ''x'')"
proof (cases n)
  case 0
  then show ?thesis by (simp add: trimFront_Nil)
next
  case (Suc k)
  have "leadingSpace (map rev spaceRunes) (CHR ''x'' # replicate k (CHR ''x'')) = 0"
    by (simp add: leadingSpace_def spaceRunes_def)
  then show ?thesis using Suc by (simp add: trimFront_stop)
qed

lemma TrimSpace_x: "TrimSpace (replicate n (CHR ''x'')) = replicate n (CHR ''x'')"
  by (simp add: TrimSpace_def TrimLeftSpace_def TrimRightSpace_def trimFront_x trimFront_rev_x)

section \<open>The two bash tools\<close>

lemma runBashIn_blocked:
  "list_ex (\<lambda>pattern. Contains command pattern) dangerousPatterns \<Longrightarrow>
   runBashIn E command dir s = (''Error: Dangerous command blocked'', s)"
  by (simp add: runBashIn_def)

text \<open>What \<open>runBashIn\<close> returns for a command that passes the blocklist, in terms of what
  the subprocess printed and how it ended.\<close>

lemma runBashIn_run:
  assumes "\<not> list_ex (\<lambda>pattern. Contains command pattern) dangerousPatterns"
      and "bash E (ext s) command (if dir \<noteq> '''' then dir else getwd E (ext s)) = ((out, err), x')"
  shows "runBashIn E command dir s =
           (take 50000
              (case err of
                 Some e \<Rightarrow> if TrimSpace out = '''' then ''Error: '' @ e else TrimSpace out
               | None \<Rightarrow> if TrimSpace out = '''' then ''(no output)'' else TrimSpace out),
            s\<lparr>spawned := spawned s @ [(command, if dir \<noteq> '''' then dir else getwd E (ext s))],
              ext := x'\<rparr>)"
  using assms
  by (cases err) (auto simp: runBashIn_def CombinedOutput_def Let_def)

lemma bashHandler_run:
  assumes "args ''command'' = Some (JString command)"
      and "bash E (ext s) command '''' = ((out, err), x')"
  shows "bashHandler E args s =
           ((case err of
               Some e \<Rightarrow> ''exit error: '' @ e @ [CHR 0x0A] @ out
             | None \<Rightarrow> if length out > 4000
                         then take 4000 out @ [CHR 0x0A] @ ''...(truncated)'' else out,
             None),
            s\<lparr>spawned := spawned s @ [(command, '''')], ext := x'\<rparr>)"
  using assms
  by (cases err) (auto simp: bashHandler_def CombinedOutput_def Let_def)

lemmas sample_defs =
  sampleEnv_def sampleBash_def sampleCommands_def sampleUnmarshal_def sampleArguments_def
  sys0_def

lemmas TrimSpace_eval =
  TrimSpace_def TrimLeftSpace_def TrimRightSpace_def trimFront.simps leadingSpace_def
  spaceRunes_def

text \<open>
  Claim C2, as amended. A command that contains one of the five blocklisted substrings
  makes \<open>runBashIn\<close> (and \<open>runBash\<close>) of the interactive variant return exactly the text
  \<open>Error: Dangerous command blocked\<close> and leave the state as it was: no subprocess is
  started. \<open>bashHandler\<close> of the registry-based variant has no blocklist: it starts a
  subprocess for every string command.
\<close>

theorem C2_blocklist:
  "(pattern \<in> {''rm -rf /'', ''sudo'', ''shutdown'', ''reboot'', ''> /dev/''} \<and>
    command = u @ pattern @ v \<longrightarrow>
      runBashIn E command dir s = (''Error: Dangerous command blocked'', s) \<and>
      runBash E command s = (''Error: Dangerous command blocked'', s)) \<and>
   (args ''command'' = Some (JString c) \<longrightarrow>
      spawned (snd (bashHandler E args s)) = spawned s @ [(c, '''')])"
proof (intro conjI impI)
  assume a: "pattern \<in> {''rm -rf /'', ''sudo'', ''shutdown'', ''reboot'', ''> /dev/''} \<and>
             command = u @ pattern @ v"
  then have "Contains command pattern" using Contains_iff by blast
  moreover have "pattern \<in> set dangerousPatterns" using a by (simp add: dangerousPatterns_def)
  ultimately have b: "list_ex (\<lambda>p. Contains command p) dangerousPatterns"
    unfolding list_ex_iff by blast
  then show "runBashIn E command dir s = (''Error: Dangerous command blocked'', s)"
    by (rule runBashIn_blocked)
  from b show "runBash E command s = (''Error: Dangerous command blocked'', s)"
    unfolding runBash_def by (rule runBashIn_blocked)
next
  assume a: "args ''command'' = Some (JString c)"
  obtain out err x' where "bash E (ext s) c '''' = ((out, err), x')"
    by (metis prod.exhaust)
  with a show "spawned (snd (bashHandler E args s)) = spawned s @ [(c, '''')]"
    by (simp add: bashHandler_run)
qed

theorem C2_blocklist_witness:
  "runBashIn (sampleEnv errorLLMClient) ''sudo ls'' '''' sys0
     = (''Error: Dangerous command blocked'', sys0) \<and>
   runBash (sampleEnv errorLLMClient) ''sudo ls'' sys0
     = (''Error: Dangerous command blocked'', sys0) \<and>
   spawned (snd (bashHandler (sampleEnv errorLLMClient) [''command'' \<mapsto> JString ''true''] sys0))
     = spawned sys0 @ [(''true'', '''')]"
  using C2_blocklist [of "''sudo''" "''sudo ls''" "''''" "'' ls''" "sampleEnv errorLLMClient"
      "''''" sys0 "[''command'' \<mapsto> JString ''true'']" "''true''"]
  by simp

text \<open>The claim as stated fails on the registry-based handler: \<open>sudo ls\<close> contains \<open>sudo\<close>,
  and \<open>bashHandler\<close> runs it and returns its output.\<close>

theorem C2_counterexample:
  "Contains ''sudo ls'' ''sudo'' \<and>
   bashHandler (sampleEnv errorLLMClient) [''command'' \<mapsto> JString ''sudo ls''] sys0 =
     ((''main.go'' @ [CHR 0x0A], None), sys0\<lparr>spawned := [(''sudo ls'', '''')]\<rparr>)"
  by (simp add: bashHandler_def CombinedOutput_def sample_defs)

text \<open>
  Claim C5, as amended. In \<open>runBashIn\<close> the cap applies to the text left after trimming:
  when a command passes the blocklist and its trimmed output is longer than 50000 bytes,
  the result is the first 50000 bytes of the trimmed output, so its length is exactly
  50000. In \<open>bashHandler\<close> the output of a successful command that is longer than 4000
  bytes is cut to its first 4000 bytes and followed by the marker, 4015 bytes in all.
\<close>

theorem C5_output_cap:
  "(\<not> list_ex (\<lambda>pattern. Contains command pattern) dangerousPatterns \<and>
    bash E (ext s) command (if dir \<noteq> '''' then dir else getwd E (ext s)) = ((out, err), x') \<and>
    length (TrimSpace out) > 50000 \<longrightarrow>
      fst (runBashIn E command dir s) = take 50000 (TrimSpace out) \<and>
      length (fst (runBashIn E command dir s)) = 50000) \<and>
   (args ''command'' = Some (JString c) \<and>
    bash E (ext s) c '''' = ((out2, None), x2) \<and> length out2 > 4000 \<longrightarrow>
      fst (fst (bashHandler E args s)) = take 4000 out2 @ [CHR 0x0A] @ ''...(truncated)'' \<and>
      length (fst (fst (bashHandler E args s))) = 4015)"
proof (intro conjI impI)
  assume a: "\<not> list_ex (\<lambda>pattern. Contains command pattern) dangerousPatterns \<and>
    bash E (ext s) command (if dir \<noteq> '''' then dir else getwd E (ext s)) = ((out, err), x') \<and>
    length (TrimSpace out) > 50000"
  then have ne: "TrimSpace out \<noteq> ''''" by auto
  have r: "fst (runBashIn E command dir s) = take 50000 (TrimSpace out)"
    using a ne by (cases err) (simp_all add: runBashIn_run)
  show "fst (runBashIn E command dir s) = take 50000 (TrimSpace out)" by (rule r)
  show "length (fst (runBashIn E command dir s)) = 50000" using a by (simp add: r)
next
  assume a: "args ''command'' = Some (JString c) \<and>
    bash E (ext s) c '''' = ((out2, None), x2) \<and> length out2 > 4000"
  then have r: "fst (fst (bashHandler E args s)) = take 4000 out2 @ [CHR 0x0A] @ ''...(truncated)''"
    by (simp add: bashHandler_run)
  show "fst (fst (bashHandler E args s)) = take 4000 out2 @ [CHR 0x0A] @ ''...(truncated)''"
    by (rule r)
  show "length (fst (fst (bashHandler E args s))) = 4015" using a by (simp add: r)
qed

theorem C5_output_cap_witness:
  "fst (runBashIn (sampleEnv errorLLMClient) ''printf %050001d 0 | tr 0 x'' '''' sys0)
     = replicate 50000 (CHR ''x'') \<and>
   fst (fst (bashHandler (sampleEnv errorLLMClient)
              [''command'' \<mapsto> JString ''printf %04001d 0 | tr 0 x''] sys0))
     = replicate 4000 (CHR ''x'') @ [CHR 0x0A] @ ''...(truncated)''"
  using C5_output_cap [of "''printf %050001d 0 | tr 0 x''" "sampleEnv errorLLMClient" sys0
      "''''" "replicate 50001 (CHR ''x'')" None 0
      "[''command'' \<mapsto> JString ''printf %04001d 0 | tr 0 x'']"
      "''printf %04001d 0 | tr 0 x''" "replicate 4001 (CHR ''x'')" 0]
  by (simp add: sample_defs dangerousPatterns_def TrimSpace_x)

text \<open>The claim as stated fails in both variants: 4001 bytes of output come back from
  \<open>bashHandler\<close> as 4015 bytes, marker included, and 50001 blanks come back from
  \<open>runBashIn\<close> as the 11 bytes of \<open>(no output)\<close>.\<close>

theorem C5_counterexample:
  "length (fst (fst (bashHandler (sampleEnv errorLLMClient)
              [''command'' \<mapsto> JString ''printf %04001d 0 | tr 0 x''] sys0))) = 4015 \<and>
   fst (runBashIn (sampleEnv errorLLMClient) ''printf %50001s'' '''' sys0) = ''(no output)''"
  by (simp add: bashHandler_def runBashIn_def CombinedOutput_def sample_defs
      dangerousPatterns_def TrimSpace_blanks)

text \<open>
  Claim C6, as amended. In \<open>runBashIn\<close>, a command that passes the blocklist, ends without
  error and prints nothing but white space yields exactly \<open>(no output)\<close>, and \<open>runBashIn\<close>
  never returns the empty string. \<open>bashHandler\<close> returns the output of a successful
  command as it is (up to its cap), the empty string included.
\<close>

theorem C6_no_output:
  "(\<not> list_ex (\<lambda>pattern. Contains command pattern) dangerousPatterns \<and>
    bash E (ext s) command (if dir \<noteq> '''' then dir else getwd E (ext s)) = ((out, None), x') \<and>
    TrimSpace out = '''' \<longrightarrow>
      fst (runBashIn E command dir s) = ''(no output)'') \<and>
   fst (runBashIn E command dir s) \<noteq> '''' \<and>
   (args ''command'' = Some (JString c) \<and>
    bash E (ext s) c '''' = ((out2, None), x2) \<and> length out2 \<le> 4000 \<longrightarrow>
      fst (bashHandler E args s) = (out2, None))"
proof (intro conjI impI)
  assume "\<not> list_ex (\<lambda>pattern. Contains command pattern) dangerousPatterns \<and>
    bash E (ext s) command (if dir \<noteq> '''' then dir else getwd E (ext s)) = ((out, None), x') \<and>
    TrimSpace out = ''''"
  then show "fst (runBashIn E command dir s) = ''(no output)''"
    by (simp add: runBashIn_run)
next
  show "fst (runBashIn E command dir s) \<noteq> ''''"
  proof (cases "list_ex (\<lambda>pattern. Contains command pattern) dangerousPatterns")
    case True
    then show ?thesis by (simp add: runBashIn_blocked)
  next
    case False
    obtain o1 e1 x1 where
      "bash E (ext s) command (if dir \<noteq> '''' then dir else getwd E (ext s)) = ((o1, e1), x1)"
      by (metis prod.exhaust)
    with False show ?thesis
      by (cases e1) (auto simp: runBashIn_run take_eq_Nil)
  qed
next
  assume "args ''command'' = Some (JString c) \<and>
    bash E (ext s) c '''' = ((out2, None), x2) \<and> length out2 \<le> 4000"
  then show "fst (bashHandler E args s) = (out2, None)"
    by (simp add: bashHandler_run)
qed

theorem C6_no_output_witness:
  "fst (runBashIn (sampleEnv errorLLMClient) ''true'' '''' sys0) = ''(no output)'' \<and>
   fst (bashHandler (sampleEnv errorLLMClient) [''command'' \<mapsto> JString ''echo hello''] sys0)
     = (''hello'' @ [CHR 0x0A], None)"
  using C6_no_output [of "''true''" "sampleEnv errorLLMClient" sys0 "''''" "''''" 0
      "[''command'' \<mapsto> JString ''echo hello'']" "''echo hello''" "''hello'' @ [CHR 0x0A]" 0]
  by (simp add: sample_defs dangerousPatterns_def TrimSpace_eval)

text \<open>The claim as stated fails on the registry-based handler: \<open>true\<close> succeeds and prints
  nothing, and \<open>bashHandler\<close> returns the empty string.\<close>

theorem C6_counterexample:
  "bashHandler (sampleEnv errorLLMClient) [''command'' \<mapsto> JString ''true''] sys0 =
     (('''', None), sys0\<lparr>spawned := [(''true'', '''')]\<rparr>)"
  by (simp add: bashHandler_def CombinedOutput_def sample_defs)

text \<open>
  Claim C7, as amended. In \<open>runBashIn\<close>, for a command that passes the blocklist and ends
  with an error: when the trimmed output is empty the result is \<open>Error: \<close> followed by the
  error's text, otherwise it is the trimmed output; either is cut to its first 50000
  bytes. \<open>bashHandler\<close> returns, with a nil error, \<open>exit error: \<close> followed by the error's
  text, a line break and the untrimmed output, whether or not there is output.
\<close>

theorem C7_failed_command:
  "(\<not> list_ex (\<lambda>pattern. Contains command pattern) dangerousPatterns \<and>
    bash E (ext s) command (if dir \<noteq> '''' then dir else getwd E (ext s)) = ((out, Some e), x')
    \<longrightarrow>
      fst (runBashIn E command dir s) =
        take 50000 (if TrimSpace out = '''' then ''Error: '' @ e else TrimSpace out)) \<and>
   (args ''command'' = Some (JString c) \<and> bash E (ext s) c '''' = ((out2, Some e2), x2)
    \<longrightarrow>
      fst (bashHandler E args s) = (''exit error: '' @ e2 @ [CHR 0x0A] @ out2, None))"
  by (simp add: runBashIn_run bashHandler_run)

theorem C7_failed_command_witness:
  "fst (runBashIn (sampleEnv errorLLMClient) ''false'' '''' sys0) = ''Error: exit status 1'' \<and>
   fst (bashHandler (sampleEnv errorLLMClient) [''command'' \<mapsto> JString ''false''] sys0)
     = (''exit error: exit status 1'' @ [CHR 0x0A], None)"
  using C7_failed_command [of "''false''" "sampleEnv errorLLMClient" sys0 "''''" "''''"
      "''exit status 1''" 0 "[''command'' \<mapsto> JString ''false'']" "''false''" "''''"
      "''exit status 1''" 0]
  by (simp add: sample_defs dangerousPatterns_def TrimSpace_eval)

text \<open>The claim as stated fails on the registry-based handler: \<open>echo boom; false\<close> prints
  \<open>boom\<close> and exits with status 1, and \<open>bashHandler\<close> does not return the captured
  output itself but the output behind a line with the error.\<close>

theorem C7_counterexample:
  "fst (bashHandler (sampleEnv errorLLMClient) [''command'' \<mapsto> JString ''echo boom; false'']
          sys0) = (''exit error: exit status 1'' @ [CHR 0x0A] @ ''boom'' @ [CHR 0x0A], None) \<and>
   fst (runBashIn (sampleEnv errorLLMClient) ''echo boom; false'' '''' sys0) = ''boom''"
  by (simp add: bashHandler_def runBashIn_def CombinedOutput_def sample_defs
      dangerousPatterns_def TrimSpace_eval)

section \<open>The interactive loop\<close>

lemma runBashIn_requests: "requests (snd (runBashIn E command dir s)) = requests s"
  by (auto simp: runBashIn_def CombinedOutput_def Let_def split: prod.splits)

text \<open>Every tool call is answered by one tool message with the call's id; a call whose
  arguments do not decode is answered with the decoder's error and changes nothing else.\<close>

lemma agentLoop_call_appends:
  "\<exists>out. fst (agentLoop_call E cwd tc m s) = m @ [ToolMessage out (tc_id tc)] \<and>
         (\<forall>e. unmarshal E (tc_arguments tc) = Inl e \<longrightarrow>
              out = ''error: '' @ e \<and> snd (agentLoop_call E cwd tc m s) = s)"
  by (cases "unmarshal E (tc_arguments tc)")
     (auto simp: agentLoop_call_def Let_def split: prod.splits)

lemma agentLoop_call_requests: "requests (snd (agentLoop_call E cwd tc m s)) = requests s"
proof (cases "unmarshal E (tc_arguments tc)")
  case (Inl e)
  then show ?thesis by (simp add: agentLoop_call_def)
next
  case (Inr args)
  have "requests (snd (runBashIn E c cwd (print_out t s))) = requests s" for c t
    by (simp add: runBashIn_requests print_out_def)
  then show ?thesis using Inr
    by (auto simp: agentLoop_call_def Let_def print_out_def split: prod.splits)
       (metis snd_conv)
qed

lemma agentLoop_calls_appends:
  "\<exists>outs. length outs = length tcs \<and>
      fst (agentLoop_calls E cwd tcs m s)
        = m @ map2 (\<lambda>tc out. ToolMessage out (tc_id tc)) tcs outs \<and>
      (\<forall>i e. i < length tcs \<and> unmarshal E (tc_arguments (tcs ! i)) = Inl e \<longrightarrow>
             outs ! i = ''error: '' @ e)"
proof (induction tcs arbitrary: m s)
  case Nil
  show ?case by simp
next
  case (Cons tc tcs)
  obtain out where out:
    "fst (agentLoop_call E cwd tc m s) = m @ [ToolMessage out (tc_id tc)]"
    "\<forall>e. unmarshal E (tc_arguments tc) = Inl e \<longrightarrow> out = ''error: '' @ e"
    using agentLoop_call_appends [of E cwd tc m s] by blast
  obtain m1 s1 where c: "agentLoop_call E cwd tc m s = (m1, s1)" by (metis prod.exhaust)
  obtain outs where outs:
    "length outs = length tcs"
    "fst (agentLoop_calls E cwd tcs m1 s1)
       = m1 @ map2 (\<lambda>tc out. ToolMessage out (tc_id tc)) tcs outs"
    "\<forall>i e. i < length tcs \<and> unmarshal E (tc_arguments (tcs ! i)) = Inl e \<longrightarrow>
           outs ! i = ''error: '' @ e"
    using Cons.IH [of m1 s1] by blast
  have m1: "m1 = m @ [ToolMessage out (tc_id tc)]" using out(1) c by simp
  have "length (out # outs) = length (tc # tcs)" using outs(1) by simp
  moreover have "fst (agentLoop_calls E cwd (tc # tcs) m s)
       = m @ map2 (\<lambda>tc out. ToolMessage out (tc_id tc)) (tc # tcs) (out # outs)"
    using c outs(2) m1 by simp
  moreover have "\<forall>i e. i < length (tc # tcs) \<and>
        unmarshal E (tc_arguments ((tc # tcs) ! i)) = Inl e \<longrightarrow>
        (out # outs) ! i = ''error: '' @ e"
  proof (intro allI impI)
    fix i e
    assume a: "i < length (tc # tcs) \<and> unmarshal E (tc_arguments ((tc # tcs) ! i)) = Inl e"
    show "(out # outs) ! i = ''error: '' @ e"
    proof (cases i)
      case 0
      then show ?thesis using a out(2) by simp
    next
      case (Suc j)
      then show ?thesis using a outs(3) by simp
    qed
  qed
  ultimately show ?case by blast
qed

lemma agentLoop_calls_requests:
  "requests (snd (agentLoop_calls E cwd tcs m s)) = requests s"
proof (induction tcs arbitrary: m s)
  case Nil
  show ?case by simp
next
  case (Cons tc tcs)
  obtain m1 s1 where c: "agentLoop_call E cwd tc m s = (m1, s1)" by (metis prod.exhaust)
  then have "requests s1 = requests s"
    using agentLoop_call_requests [of E cwd tc m s] by simp
  then show ?case using c Cons.IH [of m1 s1] by simp
qed

text \<open>The request an iteration of \<open>agentLoop\<close> sends for the history \<open>m\<close>.\<close>

lemma agentLoop_iter_requests:
  "requests (snd (agentLoop_iter E system cwd m s))
     = requests s @ [\<lparr>p_model = '''', p_messages = SystemMessage system # m,
                      p_tools = [bashToolDef]\<rparr>]"
proof -
  have "requests (snd (agentLoop_calls E cwd tcs m1 (s\<lparr>requests := r, ext := x\<rparr>))) = r"
    for tcs m1 r x
    by (simp add: agentLoop_calls_requests)
  then show ?thesis
    by (auto simp: agentLoop_iter_def Complete_def print_err_def Let_def
        split: prod.splits sum.splits list.splits)
       (metis snd_conv)
qed

text \<open>A round with tool requests: the iteration goes round again, with the assistant
  message and one tool message per call appended.\<close>

lemma agentLoop_iter_tools:
  assumes "Complete E \<lparr>p_model = '''', p_messages = SystemMessage system # m,
                       p_tools = [bashToolDef]\<rparr> s = (Inr (ch # rest), s1)"
      and "finish_reason ch = ''tool_calls''"
  shows "\<exists>outs s2. length outs = length (msg_tool_calls ch) \<and>
           agentLoop_iter E system cwd m s
             = (Again (m @ ToParam ch #
                       map2 (\<lambda>tc out. ToolMessage out (tc_id tc)) (msg_tool_calls ch) outs), s2) \<and>
           (\<forall>i e. i < length (msg_tool_calls ch) \<and>
                  unmarshal E (tc_arguments (msg_tool_calls ch ! i)) = Inl e \<longrightarrow>
                  outs ! i = ''error: '' @ e)"
proof -
  obtain outs where outs:
    "length outs = length (msg_tool_calls ch)"
    "fst (agentLoop_calls E cwd (msg_tool_calls ch) (m @ [ToParam ch]) s1)
       = (m @ [ToParam ch]) @ map2 (\<lambda>tc out. ToolMessage out (tc_id tc)) (msg_tool_calls ch) outs"
    "\<forall>i e. i < length (msg_tool_calls ch) \<and>
           unmarshal E (tc_arguments (msg_tool_calls ch ! i)) = Inl e \<longrightarrow>
           outs ! i = ''error: '' @ e"
    using agentLoop_calls_appends [of "msg_tool_calls ch" E cwd "m @ [ToParam ch]" s1] by blast
  obtain m2 s2 where c:
    "agentLoop_calls E cwd (msg_tool_calls ch) (m @ [ToParam ch]) s1 = (m2, s2)"
    by (metis prod.exhaust)
  have "agentLoop_iter E system cwd m s = (Again m2, s2)"
    using assms c by (simp add: agentLoop_iter_def Let_def)
  moreover have "m2 = m @ ToParam ch #
                   map2 (\<lambda>tc out. ToolMessage out (tc_id tc)) (msg_tool_calls ch) outs"
    using outs(2) c by simp
  ultimately show ?thesis using outs(1,3) by blast
qed

text \<open>What the interactive loop appends is never a system message, and every request it
  sends is the system prompt followed by a history that extends the one it started from.\<close>

lemma agentLoop_iter_grows:
  assumes "agentLoop_iter E system cwd m s = (r, s')"
      and "r = Again m' \<or> r = Done (Returns m')"
  shows "\<exists>added. m' = m @ added \<and> (\<forall>x\<in>set added. OfSystem x = None)"
proof -
  obtain res s1 where c:
    "Complete E \<lparr>p_model = '''', p_messages = SystemMessage system # m,
                 p_tools = [bashToolDef]\<rparr> s = (res, s1)"
    by (metis prod.exhaust)
  show ?thesis
  proof (cases res)
    case (Inl err)
    then have "r = Done (Returns m)" using assms(1) c by (simp add: agentLoop_iter_def)
    then have "m' = m @ []" using assms(2) by auto
    then show ?thesis by fastforce
  next
    case (Inr choices)
    show ?thesis
    proof (cases choices)
      case Nil
      then have "r = Done (Panics ''runtime error: index out of range [0] with length 0'')"
        using assms(1) c Inr by (simp add: agentLoop_iter_def)
      then show ?thesis using assms(2) by auto
    next
      case (Cons ch rest)
      show ?thesis
      proof (cases "finish_reason ch = ''tool_calls''")
        case False
        then have "r = Done (Returns (m @ [ToParam ch]))"
          using assms(1) c Inr Cons by (simp add: agentLoop_iter_def Let_def)
        then have "m' = m @ [ToParam ch]" using assms(2) by auto
        moreover have "\<forall>x\<in>set [ToParam ch]. OfSystem x = None" by (simp add: ToParam_def)
        ultimately show ?thesis by blast
      next
        case True
        from agentLoop_iter_tools [OF _ True, of E system m s rest s1 cwd] c Inr Cons
        obtain outs s2 where o:
          "agentLoop_iter E system cwd m s
             = (Again (m @ ToParam ch #
                 map2 (\<lambda>tc out. ToolMessage out (tc_id tc)) (msg_tool_calls ch) outs), s2)"
          by auto
        then have "m' = m @ (ToParam ch #
                 map2 (\<lambda>tc out. ToolMessage out (tc_id tc)) (msg_tool_calls ch) outs)"
          using assms by auto
        moreover have "\<forall>x\<in>set (ToParam ch #
                 map2 (\<lambda>tc out. ToolMessage out (tc_id tc)) (msg_tool_calls ch) outs).
                 OfSystem x = None"
          by (auto simp: ToParam_def)
        ultimately show ?thesis by blast
      qed
    qed
  qed
qed

lemma agentLoop_for_grows:
  assumes "agentLoop_for E system cwd m s = Some y"
  shows "\<forall>m' s'. y = (Returns m', s') \<longrightarrow>
           (\<exists>added new. m' = m @ added \<and> (\<forall>x\<in>set added. OfSystem x = None) \<and>
              requests s' = requests s @ new \<and> new \<noteq> [] \<and>
              (\<forall>p\<in>set new. \<exists>h. p_messages p = SystemMessage system # m @ h \<and>
                                  (\<forall>x\<in>set h. OfSystem x = None)))"
  using assms
proof (induction E system cwd m s y rule: agentLoop_for.raw_induct [rotated 1, consumes 1])
  case (1 loop E system cwd m s y)
  obtain r s1 where it: "agentLoop_iter E system cwd m s = (r, s1)" by (metis prod.exhaust)
  have rq: "requests s1 = requests s @ [\<lparr>p_model = '''', p_messages = SystemMessage system # m,
                      p_tools = [bashToolDef]\<rparr>]"
    using agentLoop_iter_requests [of E system cwd m s] it by simp
  show ?case
  proof (cases r)
    case (Done res)
    then have y: "y = (res, s1)" using "1.hyps" it by simp
    show ?thesis
    proof (intro allI impI)
      fix m' s'
      assume a: "y = (Returns m', s')"
      then have "r = Done (Returns m')" and s': "s' = s1" using y Done by auto
      then obtain added where ad: "m' = m @ added" "\<forall>x\<in>set added. OfSystem x = None"
        using agentLoop_iter_grows [OF it] by blast
      have "\<forall>p\<in>set [\<lparr>p_model = '''', p_messages = SystemMessage system # m,
                      p_tools = [bashToolDef]\<rparr>].
              \<exists>h. p_messages p = SystemMessage system # m @ h \<and> (\<forall>x\<in>set h. OfSystem x = None)"
        by simp
      then show "\<exists>added new. m' = m @ added \<and> (\<forall>x\<in>set added. OfSystem x = None) \<and>
              requests s' = requests s @ new \<and> new \<noteq> [] \<and>
              (\<forall>p\<in>set new. \<exists>h. p_messages p = SystemMessage system # m @ h \<and>
                                  (\<forall>x\<in>set h. OfSystem x = None))"
        using ad rq s' by blast
    qed
  next
    case (Again m1)
    then have rec: "loop E system cwd m1 s1 = Some y" using "1.hyps" it by simp
    obtain a1 where a1: "m1 = m @ a1" "\<forall>x\<in>set a1. OfSystem x = None"
      using agentLoop_iter_grows [OF it, of m1] Again by blast
    show ?thesis
    proof (intro allI impI)
      fix m' s'
      assume a: "y = (Returns m', s')"
      from "1.IH" [OF rec] a obtain added new where ih:
        "m' = m1 @ added" "\<forall>x\<in>set added. OfSystem x = None"
        "requests s' = requests s1 @ new"
        "\<forall>p\<in>set new. \<exists>h. p_messages p = SystemMessage system # m1 @ h \<and>
                           (\<forall>x\<in>set h. OfSystem x = None)"
        by blast
      let ?p0 = "\<lparr>p_model = '''', p_messages = SystemMessage system # m,
                      p_tools = [bashToolDef]\<rparr>"
      have 1: "m' = m @ (a1 @ added)" using ih(1) a1(1) by simp
      have 2: "\<forall>x\<in>set (a1 @ added). OfSystem x = None" using ih(2) a1(2) by auto
      have 3: "requests s' = requests s @ (?p0 # new)" using ih(3) rq by simp
      have 4: "\<forall>p\<in>set (?p0 # new). \<exists>h. p_messages p = SystemMessage system # m @ h \<and>
                           (\<forall>x\<in>set h. OfSystem x = None)"
      proof
        fix p assume "p \<in> set (?p0 # new)"
        then consider "p = ?p0" | "p \<in> set new" by auto
        then show "\<exists>h. p_messages p = SystemMessage system # m @ h \<and>
                           (\<forall>x\<in>set h. OfSystem x = None)"
        proof cases
          case 1
          then have "p_messages p = SystemMessage system # m @ []" by simp
          then show ?thesis by fastforce
        next
          case 2
          then obtain h where "p_messages p = SystemMessage system # m1 @ h"
            "\<forall>x\<in>set h. OfSystem x = None" using ih(4) by blast
          then have "p_messages p = SystemMessage system # m @ (a1 @ h)"
            "\<forall>x\<in>set (a1 @ h). OfSystem x = None" using a1 by auto
          then show ?thesis by blast
        qed
      qed
      have 5: "?p0 # new \<noteq> []" by simp
      show "\<exists>added new. m' = m @ added \<and> (\<forall>x\<in>set added. OfSystem x = None) \<and>
              requests s' = requests s @ new \<and> new \<noteq> [] \<and>
              (\<forall>p\<in>set new. \<exists>h. p_messages p = SystemMessage system # m @ h \<and>
                                  (\<forall>x\<in>set h. OfSystem x = None))"
        using 1 2 3 4 5 by blast
    qed
  qed
qed

lemma agentLoop_for_Again:
  "agentLoop_iter E system cwd m s = (Again m1, s1) \<Longrightarrow>
   agentLoop_for E system cwd m s = agentLoop_for E system cwd m1 s1"
  by (subst agentLoop_for.simps) simp

lemma agentLoop_for_Done:
  "agentLoop_iter E system cwd m s = (Done r, s1) \<Longrightarrow>
   agentLoop_for E system cwd m s = Some (r, s1)"
  by (subst agentLoop_for.simps) simp

section \<open>The registry and the registry-based loop\<close>

lemma handlers_Register:
  "handlers (Register r d h) = (handlers r)(def_name d \<mapsto> h)"
  by (simp add: Register_def)

lemma handlers_foldl_Register:
  "handlers (foldl (\<lambda>r (d, h). Register r d h) r regs) name =
     (if name \<in> set (map (\<lambda>(d, h). def_name d) regs)
      then handlers (foldl (\<lambda>r (d, h). Register r d h) New regs) name
      else handlers r name)"
proof (induction regs rule: rev_induct)
  case Nil
  show ?case by simp
next
  case (snoc x regs)
  obtain d h where x: "x = (d, h)" by (cases x)
  show ?case using snoc.IH by (auto simp: x handlers_Register)
qed

lemma Run_for_Again:
  "Run_iter E model m registry s = (Again m1, s1) \<Longrightarrow>
   Run E model m registry s = Run E model m1 registry s1"
  by (subst Run.simps) simp

lemma Run_for_Done:
  "Run_iter E model m registry s = (Done r, s1) \<Longrightarrow>
   Run E model m registry s = Some (r, s1)"
  by (subst Run.simps) simp

text \<open>The tool calls of one round of \<open>Run\<close>: when every argument text decodes, each call is
  answered by one tool message with its id, in order.\<close>

lemma Run_calls_ok:
  "\<forall>tc\<in>set tcs. \<exists>a. unmarshal E (tc_arguments tc) = Inr a \<Longrightarrow>
   \<exists>outs s2. length outs = length tcs \<and>
      Run_calls E registry tcs m s
        = (Inr (m @ map2 (\<lambda>tc out. ToolMessage out (tc_id tc)) tcs outs), s2)"
proof (induction tcs arbitrary: m s)
  case Nil
  show ?case by simp
next
  case (Cons tc tcs)
  obtain a where a: "unmarshal E (tc_arguments tc) = Inr a" using Cons.prems by auto
  obtain outp err s1 where d: "Dispatch registry (tc_name tc) a s = ((outp, err), s1)"
    by (metis prod.exhaust)
  define out where "out = (case err of Some e \<Rightarrow> ''error: '' @ e | None \<Rightarrow> outp)"
  have "\<forall>tc\<in>set tcs. \<exists>a. unmarshal E (tc_arguments tc) = Inr a" using Cons.prems by simp
  from Cons.IH [OF this, of "m @ [ToolMessage out (tc_id tc)]" s1]
  obtain outs s2 where ih: "length outs = length tcs"
    "Run_calls E registry tcs (m @ [ToolMessage out (tc_id tc)]) s1
       = (Inr ((m @ [ToolMessage out (tc_id tc)]) @
               map2 (\<lambda>tc out. ToolMessage out (tc_id tc)) tcs outs), s2)"
    by blast
  have "Run_calls E registry (tc # tcs) m s
       = (Inr (m @ map2 (\<lambda>tc out. ToolMessage out (tc_id tc)) (tc # tcs) (out # outs)), s2)"
    using a d ih(2) by (simp add: out_def Let_def)
  moreover have "length (out # outs) = length (tc # tcs)" using ih(1) by simp
  ultimately show ?case by blast
qed

text \<open>The first argument text that does not decode ends the round and the function: the
  calls before it have been answered, the others are not looked at.\<close>

lemma Run_calls_fail:
  "i < length tcs \<Longrightarrow> unmarshal E (tc_arguments (tcs ! i)) = Inl e \<Longrightarrow>
   \<forall>j<i. \<exists>a. unmarshal E (tc_arguments (tcs ! j)) = Inr a \<Longrightarrow>
   \<exists>outs s2. length outs = i \<and>
      Run_calls E registry tcs m s
        = (Inl (m @ map2 (\<lambda>tc out. ToolMessage out (tc_id tc)) (take i tcs) outs,
                ''failed to parse tool args for '' @ tc_name (tcs ! i) @ '': '' @ e), s2)"
proof (induction tcs arbitrary: m s i)
  case Nil
  then show ?case by simp
next
  case (Cons tc tcs)
  show ?case
  proof (cases i)
    case 0
    then have "unmarshal E (tc_arguments tc) = Inl e" using Cons.prems(2) by simp
    then have "Run_calls E registry (tc # tcs) m s
       = (Inl (m @ map2 (\<lambda>tc out. ToolMessage out (tc_id tc)) (take i (tc # tcs)) [],
                ''failed to parse tool args for '' @ tc_name ((tc # tcs) ! i) @ '': '' @ e), s)"
      using 0 by simp
    then show ?thesis using 0 by (metis length_0_conv)
  next
    case (Suc k)
    have "\<exists>a. unmarshal E (tc_arguments ((tc # tcs) ! 0)) = Inr a"
      using Cons.prems(3) Suc by blast
    then obtain a where a: "unmarshal E (tc_arguments tc) = Inr a" by auto
    obtain outp err s1 where d: "Dispatch registry (tc_name tc) a s = ((outp, err), s1)"
      by (metis prod.exhaust)
    define out where "out = (case err of Some e \<Rightarrow> ''error: '' @ e | None \<Rightarrow> outp)"
    have k: "k < length tcs" "unmarshal E (tc_arguments (tcs ! k)) = Inl e"
      using Cons.prems(1,2) Suc by auto
    have "\<forall>j<k. \<exists>a. unmarshal E (tc_arguments (tcs ! j)) = Inr a"
    proof (intro allI impI)
      fix j assume "j < k"
      then have "Suc j < i" using Suc by simp
      then have "\<exists>a. unmarshal E (tc_arguments ((tc # tcs) ! Suc j)) = Inr a"
        using Cons.prems(3) by blast
      then show "\<exists>a. unmarshal E (tc_arguments (tcs ! j)) = Inr a" by simp
    qed
    from Cons.IH [OF k this, of "m @ [ToolMessage out (tc_id tc)]" s1]
    obtain outs s2 where ih: "length outs = k"
      "Run_calls E registry tcs (m @ [ToolMessage out (tc_id tc)]) s1
         = (Inl ((m @ [ToolMessage out (tc_id tc)]) @
                 map2 (\<lambda>tc out. ToolMessage out (tc_id tc)) (take k tcs) outs,
                 ''failed to parse tool args for '' @ tc_name (tcs ! k) @ '': '' @ e), s2)"
      by blast
    have "Run_calls E registry (tc # tcs) m s
         = (Inl (m @ map2 (\<lambda>tc out. ToolMessage out (tc_id tc)) (take i (tc # tcs)) (out # outs),
                 ''failed to parse tool args for '' @ tc_name ((tc # tcs) ! i) @ '': '' @ e), s2)"
      using a d ih(2) Suc by (simp add: out_def Let_def)
    moreover have "length (out # outs) = i" using ih(1) Suc by simp
    ultimately show ?thesis by blast
  qed
qed

lemmas agentLoop_eval =
  agentLoop_def agentLoop_for.simps agentLoop_iter_def agentLoop_call_def Complete_def
  runBashIn_def CombinedOutput_def print_out_def print_err_def ToParam_def
  dangerousPatterns_def mockLLMClient_def errorLLMClient_def makeTextResponse_def
  makeToolCallResponse_def Let_def

lemmas Run_eval =
  Run.simps Run_iter_def Complete_def Dispatch_def Register_def New_def Definitions_def
  mainRegistry_def bashToolDef2_def bashHandler_def CombinedOutput_def ToParam_def
  mockLLMClient_def errorLLMClient_def makeTextResponse_def makeToolCallResponse_def Let_def

lemmas scenario_defs = errorEnv_def echoHelloEnv_def invalidJSONEnv_def noCommandEnv_def

text \<open>
  Claim C3. When the model call fails, the loop returns the history it held before that
  call, unchanged: \<open>agentLoop\<close> (its loop, from whichever history \<open>messages\<close> an iteration
  starts with) returns \<open>messages\<close>, and \<open>Run\<close> returns \<open>messages\<close> together with the error.
\<close>

theorem C3_model_failure:
  "(complete E (ext s) \<lparr>p_model = '''', p_messages = SystemMessage system # messages,
                         p_tools = [bashToolDef]\<rparr> = (Inl err, x') \<longrightarrow>
      (\<exists>s'. agentLoop_for E system cwd messages s = Some (Returns messages, s')) \<and>
      (\<exists>s'. agentLoop E system messages workDir s = Some (Returns messages, s'))) \<and>
   (complete E (ext s) \<lparr>p_model = model, p_messages = messages,
                         p_tools = Definitions registry\<rparr> = (Inl err2, x2) \<longrightarrow>
      (\<exists>s'. Run E model messages registry s
              = Some (Returns (messages, Some (''API call failed: '' @ err2)), s')))"
proof (intro conjI impI)
  assume a: "complete E (ext s) \<lparr>p_model = '''', p_messages = SystemMessage system # messages,
                         p_tools = [bashToolDef]\<rparr> = (Inl err, x')"
  have "\<exists>s'. agentLoop_iter E system c messages s = (Done (Returns messages), s')" for c
    using a by (simp add: agentLoop_iter_def Complete_def)
  then have l: "\<exists>s'. agentLoop_for E system c messages s = Some (Returns messages, s')" for c
    using agentLoop_for_Done by metis
  show "\<exists>s'. agentLoop_for E system cwd messages s = Some (Returns messages, s')" by (rule l)
  show "\<exists>s'. agentLoop E system messages workDir s = Some (Returns messages, s')"
    unfolding agentLoop_def Let_def by (rule l)
next
  assume a: "complete E (ext s) \<lparr>p_model = model, p_messages = messages,
                         p_tools = Definitions registry\<rparr> = (Inl err2, x2)"
  have "\<exists>s'. Run_iter E model messages registry s
          = (Done (Returns (messages, Some (''API call failed: '' @ err2))), s')"
    using a by (simp add: Run_iter_def Complete_def)
  then show "\<exists>s'. Run E model messages registry s
              = Some (Returns (messages, Some (''API call failed: '' @ err2)), s')"
    using Run_for_Done by metis
qed

theorem C3_model_failure_witness:
  "map_option fst (agentLoop errorEnv ''system prompt'' [UserMessage ''trigger error''] [] sys0)
     = Some (Returns [UserMessage ''trigger error'']) \<and>
   map_option fst (Run errorEnv ''qwen-plus'' [UserMessage ''trigger error'']
                     (mainRegistry errorEnv) sys0)
     = Some (Returns ([UserMessage ''trigger error''],
                      Some ''API call failed: simulated API error''))"
  using C3_model_failure [where E = errorEnv and s = sys0 and system = "''system prompt''"
      and messages = "[UserMessage ''trigger error'']" and err = "''simulated API error''"
      and x' = 0 and workDir = "[]" and cwd = "''''" and model = "''qwen-plus''"
      and registry = "mainRegistry errorEnv" and ?err2.0 = "''simulated API error''"
      and ?x2.0 = 0]
  by (auto simp: errorEnv_def sampleEnv_def errorLLMClient_def sys0_def)

text \<open>
  Claim C4. A response that asks for tools (its finish reason is \<open>tool_calls\<close>, the signal
  by which both loops tell tool requests from a final answer) and carries \<open>k\<close> tool calls:
  the round of \<open>agentLoop\<close> appends the assistant message and then \<open>k\<close> tool messages, which
  carry the ids of the calls in the order of the calls, \<open>k + 1\<close> messages in all, and goes
  round again; so does the round of \<open>Run\<close> when it runs to its end, that is, when every
  argument text decodes.
\<close>

theorem C4_round_appends:
  "(Complete E \<lparr>p_model = '''', p_messages = SystemMessage system # m,
                p_tools = [bashToolDef]\<rparr> s = (Inr (ch # rest), s1) \<and>
    finish_reason ch = ''tool_calls'' \<longrightarrow>
      (\<exists>outs s2. length outs = length (msg_tool_calls ch) \<and>
         agentLoop_iter E system cwd m s
           = (Again (m @ AssistantMessage (msg_content ch) (msg_tool_calls ch) #
                     map2 (\<lambda>tc out. ToolMessage out (tc_id tc)) (msg_tool_calls ch) outs), s2) \<and>
         length (m @ AssistantMessage (msg_content ch) (msg_tool_calls ch) #
                 map2 (\<lambda>tc out. ToolMessage out (tc_id tc)) (msg_tool_calls ch) outs)
           = length m + (length (msg_tool_calls ch) + 1))) \<and>
   (Complete E \<lparr>p_model = model, p_messages = m, p_tools = Definitions registry\<rparr> s
      = (Inr (ch2 # rest2), s3) \<and>
    finish_reason ch2 = ''tool_calls'' \<and>
    (\<forall>tc\<in>set (msg_tool_calls ch2). \<exists>a. unmarshal E (tc_arguments tc) = Inr a) \<longrightarrow>
      (\<exists>outs s2. length outs = length (msg_tool_calls ch2) \<and>
         Run_iter E model m registry s
           = (Again (m @ AssistantMessage (msg_content ch2) (msg_tool_calls ch2) #
                     map2 (\<lambda>tc out. ToolMessage out (tc_id tc)) (msg_tool_calls ch2) outs), s2) \<and>
         length (m @ AssistantMessage (msg_content ch2) (msg_tool_calls ch2) #
                 map2 (\<lambda>tc out. ToolMessage out (tc_id tc)) (msg_tool_calls ch2) outs)
           = length m + (length (msg_tool_calls ch2) + 1)))"
proof (intro conjI impI)
  assume a: "Complete E \<lparr>p_model = '''', p_messages = SystemMessage system # m,
                p_tools = [bashToolDef]\<rparr> s = (Inr (ch # rest), s1) \<and>
    finish_reason ch = ''tool_calls''"
  then obtain outs s2 where o: "length outs = length (msg_tool_calls ch)"
    "agentLoop_iter E system cwd m s
       = (Again (m @ ToParam ch #
                 map2 (\<lambda>tc out. ToolMessage out (tc_id tc)) (msg_tool_calls ch) outs), s2)"
    using agentLoop_iter_tools [of E system m s ch rest s1 cwd] by blast
  show "\<exists>outs s2. length outs = length (msg_tool_calls ch) \<and>
         agentLoop_iter E system cwd m s
           = (Again (m @ AssistantMessage (msg_content ch) (msg_tool_calls ch) #
                     map2 (\<lambda>tc out. ToolMessage out (tc_id tc)) (msg_tool_calls ch) outs), s2) \<and>
         length (m @ AssistantMessage (msg_content ch) (msg_tool_calls ch) #
                 map2 (\<lambda>tc out. ToolMessage out (tc_id tc)) (msg_tool_calls ch) outs)
           = length m + (length (msg_tool_calls ch) + 1)"
    using o by (intro exI [of _ outs] exI [of _ s2]) (simp add: ToParam_def)
next
  assume a: "Complete E \<lparr>p_model = model, p_messages = m, p_tools = Definitions registry\<rparr> s
      = (Inr (ch2 # rest2), s3) \<and>
    finish_reason ch2 = ''tool_calls'' \<and>
    (\<forall>tc\<in>set (msg_tool_calls ch2). \<exists>a. unmarshal E (tc_arguments tc) = Inr a)"
  then obtain outs s2 where o: "length outs = length (msg_tool_calls ch2)"
    "Run_calls E registry (msg_tool_calls ch2) (m @ [ToParam ch2]) s3
       = (Inr ((m @ [ToParam ch2]) @
               map2 (\<lambda>tc out. ToolMessage out (tc_id tc)) (msg_tool_calls ch2) outs), s2)"
    using Run_calls_ok [of "msg_tool_calls ch2" E registry "m @ [ToParam ch2]" s3] by blast
  have "Run_iter E model m registry s
           = (Again (m @ AssistantMessage (msg_content ch2) (msg_tool_calls ch2) #
                     map2 (\<lambda>tc out. ToolMessage out (tc_id tc)) (msg_tool_calls ch2) outs), s2)"
    using a o(2) by (simp add: Run_iter_def Let_def ToParam_def)
  then show "\<exists>outs s2. length outs = length (msg_tool_calls ch2) \<and>
         Run_iter E model m registry s
           = (Again (m @ AssistantMessage (msg_content ch2) (msg_tool_calls ch2) #
                     map2 (\<lambda>tc out. ToolMessage out (tc_id tc)) (msg_tool_calls ch2) outs), s2) \<and>
         length (m @ AssistantMessage (msg_content ch2) (msg_tool_calls ch2) #
                 map2 (\<lambda>tc out. ToolMessage out (tc_id tc)) (msg_tool_calls ch2) outs)
           = length m + (length (msg_tool_calls ch2) + 1)"
    using o(1) by (intro exI [of _ outs] exI [of _ s2]) simp
qed

theorem C4_round_appends_witness:
  \<open>fst (agentLoop_iter echoHelloEnv ''system prompt'' '''' [UserMessage ''run echo hello''] sys0)
     = Again [UserMessage ''run echo hello'',
              AssistantMessage '''' [\<lparr>tc_id = ''call-1'', tc_name = ''bash'',
                                      tc_arguments = ''{"command":"echo hello"}''\<rparr>],
              ToolMessage ''hello'' ''call-1''] \<and>
   fst (Run_iter echoHelloEnv ''qwen-plus'' [UserMessage ''run echo hello'']
          (mainRegistry echoHelloEnv) sys0)
     = Again [UserMessage ''run echo hello'',
              AssistantMessage '''' [\<lparr>tc_id = ''call-1'', tc_name = ''bash'',
                                      tc_arguments = ''{"command":"echo hello"}''\<rparr>],
              ToolMessage (''hello'' @ [CHR 0x0A]) ''call-1'']\<close>
  using C4_round_appends [where E = echoHelloEnv and s = sys0 and system = "''system prompt''"
      and m = "[UserMessage ''run echo hello'']" and cwd = "''''" and model = "''qwen-plus''"
      and registry = "mainRegistry echoHelloEnv"
      and ch = \<open>hd (makeToolCallResponse ''call-1'' ''{"command":"echo hello"}'')\<close>
      and rest = "[]"
      and ?s1.0 = "snd (Complete echoHelloEnv
                     \<lparr>p_model = '''',
                        p_messages = [SystemMessage ''system prompt'',
                                      UserMessage ''run echo hello''],
                        p_tools = [bashToolDef]\<rparr> sys0)"
      and ?ch2.0 = \<open>hd (makeToolCallResponse ''call-1'' ''{"command":"echo hello"}'')\<close>
      and ?rest2.0 = "[]"
      and ?s3.0 = "snd (Complete echoHelloEnv
                     \<lparr>p_model = ''qwen-plus'', p_messages = [UserMessage ''run echo hello''],
                        p_tools = Definitions (mainRegistry echoHelloEnv)\<rparr> sys0)"]
  by (simp add: agentLoop_eval Run_eval scenario_defs sample_defs TrimSpace_eval)

text \<open>
  Claim C1, as amended. In \<open>agentLoop\<close> a tool call whose argument text does not decode is
  answered by exactly one tool message, \<open>error: \<close> followed by the decoder's error, with the
  id of the call, and nothing else happens for that call; the round runs to its end (one
  message per call), the loop goes round again and its next iteration sends the next
  request to the model. \<open>Run\<close> does not recover: at the first argument text that does not
  decode it returns the history so far (the assistant message and the answers to the
  calls before it) together with the error \<open>failed to parse tool args for ...\<close>.
\<close>

theorem C1_malformed_arguments:
  "(Complete E \<lparr>p_model = '''', p_messages = SystemMessage system # m,
                p_tools = [bashToolDef]\<rparr> s = (Inr (ch # rest), s1) \<and>
    finish_reason ch = ''tool_calls'' \<and> i < length (msg_tool_calls ch) \<and>
    unmarshal E (tc_arguments (msg_tool_calls ch ! i)) = Inl e \<longrightarrow>
      (\<exists>m' s2. agentLoop_iter E system cwd m s = (Again m', s2) \<and>
         length m' = length m + 1 + length (msg_tool_calls ch) \<and>
         m' ! (length m + 1 + i) = ToolMessage (''error: '' @ e) (tc_id (msg_tool_calls ch ! i)) \<and>
         agentLoop_for E system cwd m s = agentLoop_for E system cwd m' s2 \<and>
         requests (snd (agentLoop_iter E system cwd m' s2))
           = requests s2 @ [\<lparr>p_model = '''', p_messages = SystemMessage system # m',
                              p_tools = [bashToolDef]\<rparr>])) \<and>
   (unmarshal E (tc_arguments tc) = Inl e1 \<longrightarrow>
      agentLoop_call E cwd tc m s = (m @ [ToolMessage (''error: '' @ e1) (tc_id tc)], s)) \<and>
   (Complete E \<lparr>p_model = model, p_messages = m, p_tools = Definitions registry\<rparr> s
      = (Inr (ch2 # rest2), s3) \<and>
    finish_reason ch2 = ''tool_calls'' \<and> i2 < length (msg_tool_calls ch2) \<and>
    unmarshal E (tc_arguments (msg_tool_calls ch2 ! i2)) = Inl e2 \<and>
    (\<forall>j<i2. \<exists>a. unmarshal E (tc_arguments (msg_tool_calls ch2 ! j)) = Inr a) \<longrightarrow>
      (\<exists>m' s2. Run E model m registry s
           = Some (Returns (m', Some (''failed to parse tool args for '' @
                                      tc_name (msg_tool_calls ch2 ! i2) @ '': '' @ e2)), s2) \<and>
         length m' = length m + 1 + i2))"
proof (intro conjI impI)
  assume a: "Complete E \<lparr>p_model = '''', p_messages = SystemMessage system # m,
                p_tools = [bashToolDef]\<rparr> s = (Inr (ch # rest), s1) \<and>
    finish_reason ch = ''tool_calls'' \<and> i < length (msg_tool_calls ch) \<and>
    unmarshal E (tc_arguments (msg_tool_calls ch ! i)) = Inl e"
  let ?tcs = "msg_tool_calls ch"
  from a obtain outs s2 where o: "length outs = length ?tcs"
    "agentLoop_iter E system cwd m s
       = (Again (m @ ToParam ch # map2 (\<lambda>tc out. ToolMessage out (tc_id tc)) ?tcs outs), s2)"
    "\<forall>i e. i < length ?tcs \<and> unmarshal E (tc_arguments (?tcs ! i)) = Inl e \<longrightarrow>
           outs ! i = ''error: '' @ e"
    using agentLoop_iter_tools [of E system m s ch rest s1 cwd] by blast
  let ?m' = "m @ ToParam ch # map2 (\<lambda>tc out. ToolMessage out (tc_id tc)) ?tcs outs"
  have 1: "length ?m' = length m + 1 + length ?tcs" using o(1) by simp
  have "outs ! i = ''error: '' @ e" using a o(3) by blast
  then have 2: "?m' ! (length m + 1 + i) = ToolMessage (''error: '' @ e) (tc_id (?tcs ! i))"
    using a o(1) by (simp add: nth_append)
  have 3: "agentLoop_for E system cwd m s = agentLoop_for E system cwd ?m' s2"
    using o(2) by (rule agentLoop_for_Again)
  have 4: "requests (snd (agentLoop_iter E system cwd ?m' s2))
           = requests s2 @ [\<lparr>p_model = '''', p_messages = SystemMessage system # ?m',
                              p_tools = [bashToolDef]\<rparr>]"
    by (rule agentLoop_iter_requests)
  show "\<exists>m' s2. agentLoop_iter E system cwd m s = (Again m', s2) \<and>
         length m' = length m + 1 + length (msg_tool_calls ch) \<and>
         m' ! (length m + 1 + i) = ToolMessage (''error: '' @ e) (tc_id (msg_tool_calls ch ! i)) \<and>
         agentLoop_for E system cwd m s = agentLoop_for E system cwd m' s2 \<and>
         requests (snd (agentLoop_iter E system cwd m' s2))
           = requests s2 @ [\<lparr>p_model = '''', p_messages = SystemMessage system # m',
                              p_tools = [bashToolDef]\<rparr>]"
    using o(2) 1 2 3 4 by blast
next
  assume "unmarshal E (tc_arguments tc) = Inl e1"
  then show "agentLoop_call E cwd tc m s = (m @ [ToolMessage (''error: '' @ e1) (tc_id tc)], s)"
    by (simp add: agentLoop_call_def)
next
  assume a: "Complete E \<lparr>p_model = model, p_messages = m, p_tools = Definitions registry\<rparr> s
      = (Inr (ch2 # rest2), s3) \<and>
    finish_reason ch2 = ''tool_calls'' \<and> i2 < length (msg_tool_calls ch2) \<and>
    unmarshal E (tc_arguments (msg_tool_calls ch2 ! i2)) = Inl e2 \<and>
    (\<forall>j<i2. \<exists>a. unmarshal E (tc_arguments (msg_tool_calls ch2 ! j)) = Inr a)"
  let ?tcs = "msg_tool_calls ch2"
  let ?err = "''failed to parse tool args for '' @ tc_name (?tcs ! i2) @ '': '' @ e2"
  from a obtain outs s2 where o: "length outs = i2"
    "Run_calls E registry ?tcs (m @ [ToParam ch2]) s3
       = (Inl ((m @ [ToParam ch2]) @
               map2 (\<lambda>tc out. ToolMessage out (tc_id tc)) (take i2 ?tcs) outs, ?err), s2)"
    using Run_calls_fail [of i2 ?tcs E e2 registry "m @ [ToParam ch2]" s3] by blast
  let ?m' = "(m @ [ToParam ch2]) @ map2 (\<lambda>tc out. ToolMessage out (tc_id tc)) (take i2 ?tcs) outs"
  have "Run_iter E model m registry s = (Done (Returns (?m', Some ?err)), s2)"
    using a o(2) by (simp add: Run_iter_def Let_def)
  then have "Run E model m registry s = Some (Returns (?m', Some ?err), s2)"
    by (rule Run_for_Done)
  moreover have "length ?m' = length m + 1 + i2" using a o(1) by simp
  ultimately show "\<exists>m' s2. Run E model m registry s
           = Some (Returns (m', Some (''failed to parse tool args for '' @
                                      tc_name (msg_tool_calls ch2 ! i2) @ '': '' @ e2)), s2) \<and>
         length m' = length m + 1 + i2"
    by blast
qed

theorem C1_malformed_arguments_witness:
  "map_option fst (agentLoop invalidJSONEnv ''system prompt''
                     [UserMessage ''trigger bad json''] [] sys0)
     = Some (Returns
         [UserMessage ''trigger bad json'',
          AssistantMessage '''' [\<lparr>tc_id = ''bad-call'', tc_name = ''bash'',
                                  tc_arguments = ''{invalid json''\<rparr>],
          ToolMessage
            ''error: invalid character 'i' looking for beginning of object key string''
            ''bad-call'',
          AssistantMessage ''Handled error.'' []]) \<and>
   map_option (\<lambda>r. length (requests (snd r)))
     (agentLoop invalidJSONEnv ''system prompt'' [UserMessage ''trigger bad json''] [] sys0)
     = Some 2"
  using C1_malformed_arguments [where E = invalidJSONEnv and s = sys0
      and system = "''system prompt''" and m = "[UserMessage ''trigger bad json'']"
      and cwd = "''''" and i = 0 and model = "''qwen-plus''"
      and registry = "mainRegistry invalidJSONEnv"
      and tc = "\<lparr>tc_id = ''bad-call'', tc_name = ''bash'', tc_arguments = ''{invalid json''\<rparr>"
      and e = "''invalid character 'i' looking for beginning of object key string''"
      and ?e1.0 = "''invalid character 'i' looking for beginning of object key string''"
      and ?e2.0 = "''invalid character 'i' looking for beginning of object key string''"
      and ?i2.0 = 0
      and ch = "hd (makeToolCallResponse ''bad-call'' ''{invalid json'')" and rest = "[]"
      and ?s1.0 = "snd (Complete invalidJSONEnv
                     \<lparr>p_model = '''',
                        p_messages = [SystemMessage ''system prompt'',
                                      UserMessage ''trigger bad json''],
                        p_tools = [bashToolDef]\<rparr> sys0)"
      and ?ch2.0 = "hd (makeToolCallResponse ''bad-call'' ''{invalid json'')" and ?rest2.0 = "[]"
      and ?s3.0 = "snd (Complete invalidJSONEnv
                     \<lparr>p_model = ''qwen-plus'', p_messages = [UserMessage ''trigger bad json''],
                        p_tools = Definitions (mainRegistry invalidJSONEnv)\<rparr> sys0)"]
  by (simp add: agentLoop_eval scenario_defs sample_defs)

text \<open>The claim as stated fails on \<open>Run\<close>: on the turn of the tests whose arguments are
  \<open>{invalid json\<close> it sends one request, appends the assistant message and no tool message,
  and returns an error to its caller.\<close>

theorem C1_counterexample:
  "map_option fst (Run invalidJSONEnv ''qwen-plus'' [UserMessage ''trigger bad json'']
                     (mainRegistry invalidJSONEnv) sys0)
     = Some (Returns
         ([UserMessage ''trigger bad json'',
           AssistantMessage '''' [\<lparr>tc_id = ''bad-call'', tc_name = ''bash'',
                                   tc_arguments = ''{invalid json''\<rparr>]],
          Some (''failed to parse tool args for bash: '' @
                ''invalid character 'i' looking for beginning of object key string''))) \<and>
   map_option (\<lambda>r. length (requests (snd r)))
     (Run invalidJSONEnv ''qwen-plus'' [UserMessage ''trigger bad json'']
        (mainRegistry invalidJSONEnv) sys0)
     = Some 1"
  by (simp add: Run_eval scenario_defs sample_defs)

text \<open>
  Claim C9. Whenever \<open>agentLoop\<close> returns a history, the history it was given is a prefix
  of it and none of the appended messages is a system message; the system prompt goes
  only into the requests: every request of the invocation is the system prompt followed
  by the given history and what has been appended so far. (An invocation that panics on
  a response without choices, or that never ends, returns no history.)
\<close>

theorem C9_history_prefix:
  assumes "agentLoop E system messages workDir s = Some (Returns messages', s')"
  shows "\<exists>added new.
           messages' = messages @ added \<and> (\<forall>x\<in>set added. OfSystem x = None) \<and>
           requests s' = requests s @ new \<and> new \<noteq> [] \<and>
           (\<forall>p\<in>set new. \<exists>h. p_messages p = SystemMessage system # messages @ h \<and>
                               (\<forall>x\<in>set h. OfSystem x = None))"
proof -
  obtain cwd where "agentLoop_for E system cwd messages s = Some (Returns messages', s')"
    using assms unfolding agentLoop_def Let_def by blast
  from agentLoop_for_grows [OF this] show ?thesis by blast
qed

lemma echoHello_run:
  \<open>agentLoop echoHelloEnv ''system prompt'' [UserMessage ''run echo hello''] [] sys0
   = Some (Returns
        [UserMessage ''run echo hello'',
         AssistantMessage '''' [\<lparr>tc_id = ''call-1'', tc_name = ''bash'',
                                 tc_arguments = ''{"command":"echo hello"}''\<rparr>],
         ToolMessage ''hello'' ''call-1'',
         AssistantMessage ''The output is: hello'' []],
        \<lparr>requests =
           [\<lparr>p_model = '''',
              p_messages = [SystemMessage ''system prompt'', UserMessage ''run echo hello''],
              p_tools = [bashToolDef]\<rparr>,
            \<lparr>p_model = '''',
              p_messages =
                [SystemMessage ''system prompt'', UserMessage ''run echo hello'',
                 AssistantMessage '''' [\<lparr>tc_id = ''call-1'', tc_name = ''bash'',
                                         tc_arguments = ''{"command":"echo hello"}''\<rparr>],
                 ToolMessage ''hello'' ''call-1''],
              p_tools = [bashToolDef]\<rparr>],
          spawned = [(''echo hello'', ''/work'')],
          stdout = [colorYellow @ ''$ echo hello'' @ colorReset @ [CHR 0x0A],
                    ''hello'' @ [CHR 0x0A]],
          stderr = [], ext = 2\<rparr>)\<close>
  by (simp add: agentLoop_eval scenario_defs sample_defs TrimSpace_eval)

theorem C9_history_prefix_witness:
  \<open>map_option fst
     (agentLoop echoHelloEnv ''system prompt'' [UserMessage ''run echo hello''] [] sys0)
   = Some (Returns
        ([UserMessage ''run echo hello''] @
         [AssistantMessage '''' [\<lparr>tc_id = ''call-1'', tc_name = ''bash'',
                                  tc_arguments = ''{"command":"echo hello"}''\<rparr>],
          ToolMessage ''hello'' ''call-1'',
          AssistantMessage ''The output is: hello'' []])) \<and>
   map OfSystem
     [AssistantMessage '''' [\<lparr>tc_id = ''call-1'', tc_name = ''bash'',
                              tc_arguments = ''{"command":"echo hello"}''\<rparr>],
      ToolMessage ''hello'' ''call-1'',
      AssistantMessage ''The output is: hello'' []] = [None, None, None]\<close>
  using C9_history_prefix [OF echoHello_run] echoHello_run
  by simp

text \<open>
  Claim C10. In \<open>agentLoop\<close>, argument text that the decoder accepts (it decodes into the
  map) but that has no string under \<open>command\<close> is not answered with an argument error: the
  command is the empty string, \<open>bash -c\<close> is started with it, and, the empty command
  printing nothing but white space and ending without error, as it does in a shell, the
  tool message carries \<open>(no output)\<close>.
\<close>

theorem C10_missing_command:
  assumes "unmarshal E (tc_arguments tc) = Inr args"
      and "\<not> (\<exists>c. args ''command'' = Some (JString c))"
      and "bash E (ext s) '''' (if cwd \<noteq> '''' then cwd else getwd E (ext s)) = ((out, None), x')"
      and "TrimSpace out = ''''"
  shows "\<exists>s'. agentLoop_call E cwd tc messages s
                 = (messages @ [ToolMessage ''(no output)'' (tc_id tc)], s') \<and>
              spawned s' = spawned s @ [('''', if cwd \<noteq> '''' then cwd else getwd E (ext s))]"
proof -
  define d where "d = (if cwd \<noteq> '''' then cwd else getwd E (ext s))"
  define s1 where "s1 = print_out (colorYellow @ ''$ '' @ '''' @ colorReset @ [CHR 0x0A]) s"
  have c: "(case args ''command'' of Some (JString c) \<Rightarrow> c | _ \<Rightarrow> '''') = ''''"
    using assms(2) by (auto split: option.splits json.splits)
  have nb: "\<not> list_ex (\<lambda>pattern. Contains '''' pattern) dangerousPatterns"
    by (simp add: dangerousPatterns_def)
  have e: "ext s1 = ext s" "spawned s1 = spawned s" by (simp_all add: s1_def print_out_def)
  have "bash E (ext s1) '''' (if cwd \<noteq> '''' then cwd else getwd E (ext s1)) = ((out, None), x')"
    using assms(3) by (simp only: e)
  from runBashIn_run [OF nb this]
  have r: "runBashIn E '''' cwd s1 = (''(no output)'', s1\<lparr>spawned := spawned s @ [('''', d)], ext := x'\<rparr>)"
    using assms(4) by (simp only: e d_def) simp
  define s3 where
    "s3 = print_out (''(no output)'' @ [CHR 0x0A]) (s1\<lparr>spawned := spawned s @ [('''', d)], ext := x'\<rparr>)"
  have "agentLoop_call E cwd tc messages s
          = (messages @ [ToolMessage ''(no output)'' (tc_id tc)], s3)"
    unfolding agentLoop_call_def using assms(1) r
    by (simp add: c Let_def s3_def s1_def)
  moreover have "spawned s3 = spawned s @ [('''', d)]"
    by (simp add: s3_def print_out_def)
  ultimately show ?thesis unfolding d_def by blast
qed

theorem C10_missing_command_witness:
  "fst (agentLoop_call noCommandEnv ''''
          \<lparr>tc_id = ''call-0'', tc_name = ''bash'', tc_arguments = ''{}''\<rparr>
          [UserMessage ''run nothing''] sys0)
     = [UserMessage ''run nothing'', ToolMessage ''(no output)'' ''call-0''] \<and>
   spawned (snd (agentLoop_call noCommandEnv ''''
          \<lparr>tc_id = ''call-0'', tc_name = ''bash'', tc_arguments = ''{}''\<rparr>
          [UserMessage ''run nothing''] sys0))
     = [('''', ''/work'')]"
  using C10_missing_command [where E = noCommandEnv and s = sys0 and cwd = "''''"
      and tc = "\<lparr>tc_id = ''call-0'', tc_name = ''bash'', tc_arguments = ''{}''\<rparr>"
      and args = "Map.empty" and out = "''''" and x' = 0
      and messages = "[UserMessage ''run nothing'']"]
  by (auto simp: scenario_defs sample_defs TrimSpace_eval)

text \<open>A number where the command should be is treated the same way.\<close>

lemma C10_number_example:
  \<open>fst (agentLoop_call noCommandEnv ''''
          \<lparr>tc_id = ''call-0'', tc_name = ''bash'', tc_arguments = ''{"command":42}''\<rparr>
          [] sys0)
     = [ToolMessage ''(no output)'' ''call-0'']\<close>
  by (simp add: agentLoop_eval scenario_defs sample_defs TrimSpace_eval)

text \<open>
  Claim C8. Registering under a name that is already present replaces the handler: after
  two registrations under one name, and whatever is registered under other names
  between and after them, \<open>Dispatch\<close> of the name is the call of the handler registered
  last. \<open>Dispatch\<close> of a name that was never registered returns the empty text and the
  error \<open>unknown tool: \<close> followed by the name, and leaves the state alone: no handler runs.
\<close>

theorem C8_registry_overwrite:
  "(def_name d2 = def_name d1 \<and>
    def_name d1 \<notin> set (map (\<lambda>(d, h). def_name d) later) \<longrightarrow>
      Dispatch (foldl (\<lambda>r (d, h). Register r d h)
                  (Register (foldl (\<lambda>r (d, h). Register r d h) (Register r d1 h1) between)
                     d2 h2) later)
        (def_name d1) args s = h2 args s) \<and>
   (name \<notin> set (map (\<lambda>(d, h). def_name d) regs) \<longrightarrow>
      Dispatch (foldl (\<lambda>r (d, h). Register r d h) New regs) name args s
        = (('''', Some (''unknown tool: '' @ name)), s))"
proof (intro conjI impI)
  assume a: "def_name d2 = def_name d1 \<and>
    def_name d1 \<notin> set (map (\<lambda>(d, h). def_name d) later)"
  let ?r2 = "Register (foldl (\<lambda>r (d, h). Register r d h) (Register r d1 h1) between) d2 h2"
  have "handlers (foldl (\<lambda>r (d, h). Register r d h) ?r2 later) (def_name d1)
          = handlers ?r2 (def_name d1)"
    using a handlers_foldl_Register [of ?r2 later "def_name d1"] by simp
  also have "\<dots> = Some h2" using a by (simp add: handlers_Register)
  finally show "Dispatch (foldl (\<lambda>r (d, h). Register r d h) ?r2 later) (def_name d1) args s
                  = h2 args s"
    by (simp add: Dispatch_def)
next
  assume a: "name \<notin> set (map (\<lambda>(d, h). def_name d) regs)"
  have "handlers (foldl (\<lambda>r (d, h). Register r d h) New regs) name = handlers New name"
    using a handlers_foldl_Register [of New regs name] by simp
  also have "\<dots> = None" by (simp add: New_def)
  finally show "Dispatch (foldl (\<lambda>r (d, h). Register r d h) New regs) name args s
        = (('''', Some (''unknown tool: '' @ name)), s)"
    by (simp add: Dispatch_def)
qed

theorem C8_registry_overwrite_witness:
  "Dispatch (Register (Register New bashToolDef2 (bashHandler errorEnv))
               bashToolDef (\<lambda>args s. ((''second'', None), s)))
     ''bash'' [''command'' \<mapsto> JString ''true''] sys0
     = ((''second'', None), sys0) \<and>
   Dispatch (Register New bashToolDef2 (bashHandler errorEnv))
     ''read_file'' [''command'' \<mapsto> JString ''true''] sys0
     = (('''', Some ''unknown tool: read_file''), sys0)"
  using C8_registry_overwrite [where ?d1.0 = bashToolDef2 and ?d2.0 = bashToolDef
      and ?h1.0 = "bashHandler errorEnv" and ?h2.0 = "\<lambda>args s. ((''second'', None), s)"
      and r = New and between = "[]" and later = "[]"
      and args = "[''command'' \<mapsto> JString ''true'']" and s = sys0
      and name = "''read_file''" and regs = "[(bashToolDef2, bashHandler errorEnv)]"]
  by (simp add: bashToolDef_def bashToolDef2_def)

section \<open>Further runs\<close>

text \<open>A model call that fails in the second iteration: the history returned is the one
  held before that call, with the first round in it, and the error goes to standard
  error.\<close>

lemma model_failure_second_call:
  \<open>map_option fst
     (agentLoop exhaustedEnv ''system prompt'' [UserMessage ''run echo hello''] [] sys0)
   = Some (Returns
        [UserMessage ''run echo hello'',
         AssistantMessage '''' [\<lparr>tc_id = ''call-1'', tc_name = ''bash'',
                                 tc_arguments = ''{"command":"echo hello"}''\<rparr>],
         ToolMessage ''hello'' ''call-1'']) \<and>
   map_option (\<lambda>r. stderr (snd r))
     (agentLoop exhaustedEnv ''system prompt'' [UserMessage ''run echo hello''] [] sys0)
   = Some [''API error: mockLLMClient: no more responses (call #1)'' @ [CHR 0x0A]]\<close>
  by (simp add: agentLoop_eval exhaustedEnv_def sample_defs TrimSpace_eval decimal.simps)

text \<open>Argument text that is JSON but not an object does not decode into the map, and is
  answered like text that is not JSON.\<close>

lemma json_array_arguments:
  "agentLoop_call errorEnv '''' \<lparr>tc_id = ''call-2'', tc_name = ''bash'', tc_arguments = ''[]''\<rparr>
     [] sys0
   = ([ToolMessage
         ''error: json: cannot unmarshal array into Go value of type map[string]interface {}''
         ''call-2''], sys0)"
  by (simp add: agentLoop_call_def scenario_defs sample_defs)

text \<open>A blocked command inside the loop: the tool message carries the sentinel, nothing is
  started, and the loop asks the model again.\<close>

lemma blocked_command_run:
  \<open>map_option (\<lambda>r. (fst r, spawned (snd r), length (requests (snd r))))
     (agentLoop
        (sampleEnv (mockLLMClient [makeToolCallResponse ''call-danger'' ''{"command":"sudo ls"}'',
                                   makeTextResponse ''Blocked as expected.'']))
        ''system prompt'' [UserMessage ''try dangerous command''] [] sys0)
   = Some (Returns
        [UserMessage ''try dangerous command'',
         AssistantMessage '''' [\<lparr>tc_id = ''call-danger'', tc_name = ''bash'',
                                 tc_arguments = ''{"command":"sudo ls"}''\<rparr>],
         ToolMessage ''Error: Dangerous command blocked'' ''call-danger'',
         AssistantMessage ''Blocked as expected.'' []], [], 2)\<close>
  by (simp add: agentLoop_eval sample_defs)

end
